theory Spec2Isabelle
  imports Main
begin

section \<open>JavaScript values, promises and the connection pool\<close>

text \<open>
  The three servers of the repository are thin handlers around two collaborators that are
  not part of it: the \<^verbatim>\<open>pg\<close> connection pool and the file system reached through
  \<^verbatim>\<open>createWriteStream\<close>.  Both are modelled as explicit state that a handler receives
  and returns.

  A value bound to a query parameter (\<^verbatim>\<open>values: any[]\<close>); among the values that are
  not JSON, a BigInt is kept, since \<^verbatim>\<open>JSON.stringify\<close> refuses it:
\<close>

datatype jsvalue = JNull | JBool bool | JNum int | JStr string | JBigInt int

text \<open>
  The \<^verbatim>\<open>values\<close> a tool handler receives were parsed from the JSON of the request, so
  they hold no BigInt.
\<close>

datatype json = JsonNull | JsonBool bool | JsonNum int | JsonStr string

fun of_json :: "json \<Rightarrow> jsvalue" where
  "of_json JsonNull = JNull"
| "of_json (JsonBool b) = JBool b"
| "of_json (JsonNum n) = JNum n"
| "of_json (JsonStr s) = JStr s"

text \<open>
  A thrown value: the text that a template literal \<^verbatim>\<open>${err}\<close> yields for it, and, when
  \<^verbatim>\<open>JSON.stringify(err)\<close> throws on it (a circular structure, a BigInt inside), the text
  of the \<^verbatim>\<open>TypeError\<close> thrown then.
\<close>

datatype thrown = Thrown (rendering: string) (json_failure: "string option")

text \<open>
  An awaited computation returns, throws (a rejected promise), or never settles.
\<close>

datatype 'a js = Throws thrown | Returns 'a | Pending

text \<open>
  \<^verbatim>\<open>JSON.stringify(values ?? [], null, 4)\<close> and \<^verbatim>\<open>JSON.stringify(err, null, 4)\<close>: only
  whether they throw matters, since the text goes to the log.
\<close>

fun is_bigint :: "jsvalue \<Rightarrow> bool" where
  "is_bigint (JBigInt n) = True"
| "is_bigint v = False"

definition JSON_stringify_values_throws :: "jsvalue list \<Rightarrow> thrown option" where
  "JSON_stringify_values_throws vals =
     (if list_ex is_bigint vals
      then Some (Thrown ''TypeError: Do not know how to serialize a BigInt'' None)
      else None)"

definition JSON_stringify_throws :: "thrown \<Rightarrow> thrown option" where
  "JSON_stringify_throws err =
     (case json_failure err of None \<Rightarrow> None | Some msg \<Rightarrow> Some (Thrown msg None))"

text \<open>
  \<^verbatim>\<open>PostgreSQL.pool\<close>: what the store answers to the n-th \<^verbatim>\<open>pool.query\<close> call, and
  how many calls were made so far.  \<^verbatim>\<open>res.rows\<close> may be nullish, hence the option.
\<close>

record 'r pool =
  respond :: "nat \<Rightarrow> string \<Rightarrow> jsvalue list \<Rightarrow> 'r list option js"
  calls :: nat

definition pool_query :: "'r pool \<Rightarrow> string \<Rightarrow> jsvalue list \<Rightarrow> 'r list option js \<times> 'r pool" where
  "pool_query p parameterizedQuery vals =
     (respond p (calls p) parameterizedQuery vals, p\<lparr>calls := calls p + 1\<rparr>)"

section \<open>postgresql.ts: queryAsync\<close>

text \<open>
  \<^verbatim>\<open>type QueryResult<T> = { error?: boolean, message: string | unknown, data: T[] }\<close>.
  The message is the string \<^verbatim>\<open>'success'\<close> or the value caught; \<open>template\<close> is what
  \<^verbatim>\<open>${result.message}\<close> yields.
\<close>

datatype message = Text string | Caught thrown

fun template :: "message \<Rightarrow> string" where
  "template (Text s) = s"
| "template (Caught err) = rendering err"

record 'r QueryResult =
  error :: "bool option"
  message :: message
  data :: "'r list"

text \<open>
  \<^verbatim>\<open>try { ... } catch (err) { ... }\<close>.  Of the \<^verbatim>\<open>console.log\<close> lines of the source,
  which write to the process log, only the two of \<^verbatim>\<open>queryAsync\<close> whose argument calls
  \<^verbatim>\<open>JSON.stringify\<close> can throw; they are kept, the others are left out.
\<close>

definition try_catch :: "'a js \<Rightarrow> (thrown \<Rightarrow> 'a js) \<Rightarrow> 'a js" where
  "try_catch body handler =
     (case body of Throws err \<Rightarrow> handler err | Returns v \<Rightarrow> Returns v | Pending \<Rightarrow> Pending)"

text \<open>\<^verbatim>\<open>res.rows ?? []\<close>\<close>

definition rows_or_empty :: "'r list option \<Rightarrow> 'r list" where
  "rows_or_empty rows = (case rows of None \<Rightarrow> [] | Some rs \<Rightarrow> rs)"

text \<open>
  \<open>queryAsync\<close> logs \<^verbatim>\<open>JSON.stringify(values ?? [], null, 4)\<close> before its
  \<^verbatim>\<open>try\<close> block, so a throw there leaves the method before the pool is called; inside
  the \<^verbatim>\<open>catch\<close> block it logs \<^verbatim>\<open>JSON.stringify(err, null, 4)\<close> before it returns,
  so a throw there leaves the method in place of the result.
\<close>

definition queryAsync ::
  "'r pool \<Rightarrow> string \<Rightarrow> jsvalue list \<Rightarrow> 'r QueryResult js \<times> 'r pool" where
  "queryAsync p parameterizedQuery vals =
     (case JSON_stringify_values_throws vals of
        Some e \<Rightarrow> (Throws e, p)
      | None \<Rightarrow>
          (let (res, p') = pool_query p parameterizedQuery vals in
           (try_catch
              (case res of
                 Throws err \<Rightarrow> Throws err
               | Pending \<Rightarrow> Pending
               | Returns rows \<Rightarrow>
                   Returns \<lparr>error = None, message = Text ''success'',
                            data = rows_or_empty rows\<rparr>)
              (\<lambda>err. case JSON_stringify_throws err of
                        Some e \<Rightarrow> Throws e
                      | None \<Rightarrow>
                          Returns \<lparr>error = Some True, message = Caught err, data = []\<rparr>),
            p')))"

section \<open>Tool results\<close>

text \<open>
  \<^verbatim>\<open>CallToolResult\<close>: the single text item of \<^verbatim>\<open>content\<close>, the optional
  \<^verbatim>\<open>structuredContent\<close> and the optional \<^verbatim>\<open>isError\<close> flag.
\<close>

record 'a CallToolResult =
  content :: string
  structuredContent :: "'a option"
  isError :: "bool option"

text \<open>A non-negative integer inside a template literal: its decimal digits.\<close>

definition digit :: "nat \<Rightarrow> char" where
  "digit d = ''0123456789'' ! d"

fun string_of_nat :: "nat \<Rightarrow> string" where
  "string_of_nat n =
     (if n < 10 then [digit n] else string_of_nat (n div 10) @ [digit (n mod 10)])"

declare string_of_nat.simps [simp del]

section \<open>postgres-query/mcp-server.ts: catalog introspection\<close>

text \<open>
  The rows the two catalog queries are typed to return.  A field of type
  \<^verbatim>\<open>number | null\<close> that may be missing is an \<open>optnum\<close>.
\<close>

datatype optnum = Undefined | Null | Num int

record column_row =
  column_name :: string
  data_type :: string
  identity :: bool
  required :: bool
  character_maximum_length :: optnum
  numeric_precision :: optnum
  numeric_precision_radix :: optnum

record table_row = column_row +
  table_schema :: string
  table_name :: string

text \<open>
  The output objects.  Field names of the source are prefixed, since several objects share
  them: a column \<^verbatim>\<open>{name, type, identity, required, char_max_length, num_precision,
  num_precision_radix}\<close>, a table \<^verbatim>\<open>{schema, name, columns}\<close>, the output of
  \<^verbatim>\<open>describe_table\<close> \<^verbatim>\<open>{schema, table, columns}\<close> and the output of
  \<^verbatim>\<open>describe_tables\<close> \<^verbatim>\<open>{tables}\<close>.
\<close>

record column =
  col_name :: string
  col_type :: string
  col_identity :: bool
  col_required :: bool
  col_char_max_length :: optnum
  col_num_precision :: optnum
  col_num_precision_radix :: optnum

record table_descriptor =
  tbl_schema :: string
  tbl_name :: string
  tbl_columns :: "column list"

record describeTableOutput =
  dto_schema :: string
  dto_table :: string
  dto_columns :: "column list"

record describeTablesOutput =
  tables :: "table_descriptor list"

text \<open>The object literal both handlers build from a catalog row.\<close>

definition to_column :: "'a column_row_scheme \<Rightarrow> column" where
  "to_column v =
     \<lparr>col_name = column_name v, col_type = data_type v, col_identity = identity v,
      col_required = required v, col_char_max_length = character_maximum_length v,
      col_num_precision = numeric_precision v,
      col_num_precision_radix = numeric_precision_radix v\<rparr>"

definition describeTable_query :: string where
  \<open>describeTable_query =
     ''SELECT "column_name", "data_type", CASE "is_identity" WHEN 'NO' THEN false ELSE true END AS "identity", CASE "is_nullable" WHEN 'NO' THEN false ELSE true END AS "required", "character_maximum_length", "numeric_precision", "numeric_precision_radix" FROM information_schema."columns" WHERE "table_name" = $1 AND "table_schema" = $2;''\<close>

definition describeTables_query :: string where
  \<open>describeTables_query =
     ''SELECT "table_schema", "table_name", "column_name", "data_type", CASE "is_identity" WHEN 'NO' THEN false ELSE true END AS "identity", CASE "is_nullable" WHEN 'NO' THEN false ELSE true END AS "required", "character_maximum_length", "numeric_precision", "numeric_precision_radix" FROM information_schema."columns" WHERE "table_schema" = $1 ORDER BY "table_schema", "table_name";''\<close>

text \<open>The apostrophe and the double quote of the message templates.\<close>

definition apos :: string where
  "apos = [CHR 0x27]"

definition dquote :: string where
  "dquote = [CHR 0x22]"

definition describeTableHandlerAsync ::
  "column_row pool \<Rightarrow> string \<Rightarrow> string \<Rightarrow>
   describeTableOutput CallToolResult js \<times> column_row pool" where
  "describeTableHandlerAsync p table schema =
     (case queryAsync p describeTable_query [JStr table, JStr schema] of
        (Throws err, p') \<Rightarrow> (Throws err, p')
      | (Pending, p') \<Rightarrow> (Pending, p')
      | (Returns result, p') \<Rightarrow>
          if error result = Some True then
            (Returns \<lparr>content = ''Error describing table: '' @ template (message result),
                      structuredContent = None, isError = Some True\<rparr>, p')
          else
            (Returns
               \<lparr>content = ''Found '' @ string_of_nat (length (data result))
                    @ '' columns in the '' @ apos @ schema @ ''.'' @ dquote @ table @ dquote
                    @ apos @ '' table'',
                structuredContent =
                  Some \<lparr>dto_schema = schema, dto_table = table,
                        dto_columns = map to_column (data result)\<rparr>,
                isError = None\<rparr>, p'))"

text \<open>
  \<^verbatim>\<open>Array.prototype.findIndex\<close>: the index of the first element satisfying the
  predicate, or -1.
\<close>

fun findIndex :: "('a \<Rightarrow> bool) \<Rightarrow> 'a list \<Rightarrow> int" where
  "findIndex P [] = - 1"
| "findIndex P (x # xs) =
     (if P x then 0 else (let i = findIndex P xs in if i = - 1 then - 1 else i + 1))"

text \<open>
  The body of \<^verbatim>\<open>result.data.forEach\<close> in \<^verbatim>\<open>describeTablesHandlerAsync\<close>: look the
  row's table up by schema and name, push an entry with no column when it is not there, and
  push the row's column onto the entry found.
\<close>

definition push_column :: "table_descriptor list \<Rightarrow> table_row \<Rightarrow> table_descriptor list" where
  "push_column tbls v =
     (let index = findIndex (\<lambda>row. tbl_schema row = table_schema v \<and> tbl_name row = table_name v) tbls;
          tbls' = (if index = - 1
                   then tbls @ [\<lparr>tbl_schema = table_schema v, tbl_name = table_name v,
                                 tbl_columns = []\<rparr>]
                   else tbls);
          index' = (if index = - 1 then int (length tbls') - 1 else index);
          entry = tbls' ! nat index'
      in tbls'[nat index' := entry\<lparr>tbl_columns := tbl_columns entry @ [to_column v]\<rparr>])"

definition describeTablesHandlerAsync ::
  "table_row pool \<Rightarrow> string \<Rightarrow> describeTablesOutput CallToolResult js \<times> table_row pool" where
  "describeTablesHandlerAsync p schema =
     (case queryAsync p describeTables_query [JStr schema] of
        (Throws err, p') \<Rightarrow> (Throws err, p')
      | (Pending, p') \<Rightarrow> (Pending, p')
      | (Returns result, p') \<Rightarrow>
          if error result = Some True then
            (Returns \<lparr>content = ''Error describing tables: '' @ template (message result),
                      structuredContent = None, isError = Some True\<rparr>, p')
          else
            (let tableCount = length (remdups (map table_name (data result)))
             in (Returns
                   \<lparr>content = ''Found '' @ string_of_nat tableCount @ '' tables in the ''
                        @ apos @ schema @ apos @ '' schema'',
                    structuredContent = Some \<lparr>tables = foldl push_column [] (data result)\<rparr>,
                    isError = None\<rparr>, p')))"

section \<open>postgres-query/mcp-server.ts and postgres/mcp-server.ts: running a query\<close>

text \<open>
  \<^verbatim>\<open>{ rowCount, rows }\<close>, the output of \<^verbatim>\<open>query\<close> and \<^verbatim>\<open>postgres_run_query\<close>.
  The \<^verbatim>\<open>schema\<close> argument of \<^verbatim>\<open>queryHandlerAsync\<close> is never read by its body and
  is not a parameter here.
\<close>

record 'r queryOutput =
  rowCount :: nat
  rows :: "'r list"

definition queryHandlerAsync ::
  "'r pool \<Rightarrow> string \<Rightarrow> json list \<Rightarrow> 'r queryOutput CallToolResult js \<times> 'r pool" where
  "queryHandlerAsync p parameterizedQuery vals =
     (case queryAsync p parameterizedQuery (map of_json vals) of
        (Throws err, p') \<Rightarrow> (Throws err, p')
      | (Pending, p') \<Rightarrow> (Pending, p')
      | (Returns result, p') \<Rightarrow>
          if error result = Some True then
            (Returns \<lparr>content = ''Error querying database: '' @ template (message result),
                      structuredContent = None, isError = Some True\<rparr>, p')
          else if length (data result) = 0 then
            (Returns \<lparr>content = ''No result found'',
                      structuredContent = Some \<lparr>rowCount = 0, rows = []\<rparr>,
                      isError = None\<rparr>, p')
          else
            (Returns \<lparr>content = ''Found '' @ string_of_nat (length (data result))
                        @ '' results from the query'',
                      structuredContent =
                        Some \<lparr>rowCount = length (data result), rows = data result\<rparr>,
                      isError = None\<rparr>, p'))"

text \<open>\<^verbatim>\<open>runQueryHandlerAsync\<close> of the older server has the same body.\<close>

definition runQueryHandlerAsync ::
  "'r pool \<Rightarrow> string \<Rightarrow> json list \<Rightarrow> 'r queryOutput CallToolResult js \<times> 'r pool" where
  "runQueryHandlerAsync p parameterizedQuery vals =
     (case queryAsync p parameterizedQuery (map of_json vals) of
        (Throws err, p') \<Rightarrow> (Throws err, p')
      | (Pending, p') \<Rightarrow> (Pending, p')
      | (Returns result, p') \<Rightarrow>
          if error result = Some True then
            (Returns \<lparr>content = ''Error querying database: '' @ template (message result),
                      structuredContent = None, isError = Some True\<rparr>, p')
          else if length (data result) = 0 then
            (Returns \<lparr>content = ''No result found'',
                      structuredContent = Some \<lparr>rowCount = 0, rows = []\<rparr>,
                      isError = None\<rparr>, p')
          else
            (Returns \<lparr>content = ''Found '' @ string_of_nat (length (data result))
                        @ '' results from the query'',
                      structuredContent =
                        Some \<lparr>rowCount = length (data result), rows = data result\<rparr>,
                      isError = None\<rparr>, p'))"

section \<open>Writing a CSV file\<close>

text \<open>
  The options both file-producing handlers give to \<^verbatim>\<open>stringify\<close>; the \<^verbatim>\<open>cast.date\<close>
  entry, \<^verbatim>\<open>(value) => value.toISOString()\<close>, is recorded as a flag.
\<close>

record stringify_options =
  header :: bool
  quoted :: bool
  quoted_empty :: bool
  escape :: string
  cast_date_toISOString :: bool

definition stringifier_options :: stringify_options where
  "stringifier_options =
     \<lparr>header = True, quoted = True, quoted_empty = True, escape = dquote,
      cast_date_toISOString = True\<rparr>"

text \<open>
  The bytes of a file are produced by the \<^verbatim>\<open>csv-stringify\<close> package, which is not part
  of the repository.  A file is therefore represented by what reached it from the
  stringifier piped into it: the options, and the rows in the order they were written.
\<close>

record 'r csv_file =
  csv_options :: stringify_options
  csv_rows :: "'r list"

text \<open>
  The stringifier: its options, the rows it has transformed, and whether it has raised an
  error.  Which rows it raises an error on is the package's business (for one, a row with an
  invalid Date, on which the \<^verbatim>\<open>cast.date\<close> function throws); the handlers take it as
  the parameter \<open>rejects\<close>, asked with the rows transformed before and the row written.
  After an error the stringifier transforms nothing more.
\<close>

record 'r stringifier =
  options :: stringify_options
  transformed :: "'r list"
  errored :: bool

definition stringify :: "stringify_options \<Rightarrow> 'r stringifier" where
  "stringify opts = \<lparr>options = opts, transformed = [], errored = False\<rparr>"

text \<open>\<^verbatim>\<open>stringifier.write(row)\<close>\<close>

definition stringifier_write ::
  "('r list \<Rightarrow> 'r \<Rightarrow> bool) \<Rightarrow> 'r stringifier \<Rightarrow> 'r \<Rightarrow> 'r stringifier" where
  "stringifier_write rejects s row =
     (if errored s then s
      else if rejects (transformed s) row then s\<lparr>errored := True\<rparr>
      else s\<lparr>transformed := transformed s @ [row]\<rparr>)"

text \<open>
  The file system: the files by full path; the paths at which a write stream cannot be
  opened, each with the message of the \<^verbatim>\<open>error\<close> event the stream then emits; the paths
  at which a stream opens but a later write fails, each with the number of rows the file
  takes before that and the message of the \<^verbatim>\<open>error\<close> event; and the log of the paths
  \<^verbatim>\<open>createWriteStream\<close> was called with, oldest first.
\<close>

record 'r fs =
  files :: "string \<rightharpoonup> 'r csv_file"
  denied :: "string \<rightharpoonup> string"
  write_failure :: "string \<rightharpoonup> nat \<times> string"
  opened :: "string list"

definition createWriteStream :: "'r fs \<Rightarrow> string \<Rightarrow> string option \<times> 'r fs" where
  "createWriteStream fsys fullPath =
     (denied fsys fullPath, fsys\<lparr>opened := opened fsys @ [fullPath]\<rparr>)"

text \<open>The rows, of those handed to an open stream, that reach the file.\<close>

definition landed :: "'r fs \<Rightarrow> string \<Rightarrow> 'r list \<Rightarrow> 'r list" where
  "landed fsys fullPath rs =
     (case write_failure fsys fullPath of None \<Rightarrow> rs | Some (k, msg) \<Rightarrow> take k rs)"

text \<open>
  What the write stream emits once \<^verbatim>\<open>stringifier.pipe(writableStream)\<close>, the writes and
  \<^verbatim>\<open>stringifier.end()\<close> have run, and the file system it leaves.
  \<^item> A stream that cannot be opened emits \<^verbatim>\<open>error\<close> and leaves no file.
  \<^item> A stream that opens receives the transformed rows.  It emits \<^verbatim>\<open>error\<close> when a
    write fails, leaving the rows that reached the file before; otherwise it emits
    \<^verbatim>\<open>finish\<close>.
  \<^item> The \<^verbatim>\<open>error\<close> event of the stringifier has no listener in either handler: when
    the stringifier has raised an error it never ends, the write stream emits neither
    event, and the promise of the handler is never resolved.  The model lets the rows
    transformed before the error reach an open stream; no theorem below depends on it.
\<close>

datatype stream_event = FinishEvent | ErrorEvent string | NoEvent

definition pipe_and_end ::
  "'r stringifier \<Rightarrow> string option \<Rightarrow> 'r fs \<Rightarrow> string \<Rightarrow> stream_event \<times> 'r fs" where
  "pipe_and_end s failure fsys fullPath =
     (case failure of
        Some err \<Rightarrow> (if errored s then NoEvent else ErrorEvent err, fsys)
      | None \<Rightarrow>
          (if errored s then NoEvent
           else (case write_failure fsys fullPath of
                   None \<Rightarrow> FinishEvent
                 | Some (k, msg) \<Rightarrow>
                     if k < length (transformed s) then ErrorEvent msg else FinishEvent),
           fsys\<lparr>files := (files fsys)(fullPath \<mapsto>
                  \<lparr>csv_options = options s,
                   csv_rows = landed fsys fullPath (transformed s)\<rparr>)\<rparr>))"

text \<open>\<^verbatim>\<open>{ fullPath, rowCount }\<close>, the output of both file-producing tools.\<close>

record fileOutput =
  fullPath :: string
  fileRowCount :: nat

text \<open>
  \<^verbatim>\<open>join\<close> of \<^verbatim>\<open>node:path\<close> is a parameter of the handlers.  On a directory without
  trailing separator and a plain file name it puts one separator between the two, which is
  what \<open>sep_join\<close> does.
\<close>

definition sep_join :: "string \<Rightarrow> string \<Rightarrow> string" where
  "sep_join path filename = path @ ''/'' @ filename"

section \<open>csv-generator/mcp-server.ts: create\_fromjson\_tofs\<close>

definition createFromJsonToFSHandlerAsync ::
  "(string \<Rightarrow> string \<Rightarrow> string) \<Rightarrow> ('r list \<Rightarrow> 'r \<Rightarrow> bool) \<Rightarrow> 'r fs \<Rightarrow> string \<Rightarrow> string \<Rightarrow>
   'r list \<Rightarrow> fileOutput CallToolResult js \<times> 'r fs" where
  "createFromJsonToFSHandlerAsync join rejects fsys filename path contents =
     (let fullPath = join path filename;
          (failure, fsys') = createWriteStream fsys fullPath;
          stringifier = foldl (stringifier_write rejects) (stringify stringifier_options) contents;
          (event, fsys'') = pipe_and_end stringifier failure fsys' fullPath
      in case event of
           FinishEvent \<Rightarrow>
             (Returns
                \<lparr>content = ''Created '' @ dquote @ filename @ dquote @ '' file with ''
                     @ string_of_nat (length contents) @ '' rows'',
                 structuredContent =
                   Some \<lparr>fullPath = fullPath, fileRowCount = length contents\<rparr>,
                 isError = None\<rparr>, fsys'')
         | ErrorEvent err \<Rightarrow>
             (Returns \<lparr>content = ''Error creating file: '' @ err, structuredContent = None,
                       isError = Some True\<rparr>, fsys'')
         | NoEvent \<Rightarrow> (Pending, fsys''))"

section \<open>postgres/mcp-server.ts: postgres\_save\_query\_result\<close>

definition saveQueryResultHandlerAsync ::
  "(string \<Rightarrow> string \<Rightarrow> string) \<Rightarrow> ('r list \<Rightarrow> 'r \<Rightarrow> bool) \<Rightarrow> 'r pool \<Rightarrow> 'r fs \<Rightarrow> string \<Rightarrow>
   json list \<Rightarrow> string \<Rightarrow> string \<Rightarrow> fileOutput CallToolResult js \<times> 'r pool \<times> 'r fs" where
  "saveQueryResultHandlerAsync join rejects p fsys parameterizedQuery vals filename path =
     (case queryAsync p parameterizedQuery (map of_json vals) of
        (Throws err, p') \<Rightarrow> (Throws err, p', fsys)
      | (Pending, p') \<Rightarrow> (Pending, p', fsys)
      | (Returns result, p') \<Rightarrow>
          if error result = Some True then
            (Returns \<lparr>content = ''Error querying database: '' @ template (message result),
                      structuredContent = None, isError = Some True\<rparr>, p', fsys)
          else if length (data result) = 0 then
            (Returns \<lparr>content = ''No CSV file generated because no result was found'',
                      structuredContent = Some \<lparr>fullPath = '''', fileRowCount = 0\<rparr>,
                      isError = None\<rparr>, p', fsys)
          else
            (let fullPath = join path filename;
                 (failure, fsys') = createWriteStream fsys fullPath;
                 stringifier = foldl (stringifier_write rejects) (stringify stringifier_options)
                                 (data result);
                 (event, fsys'') = pipe_and_end stringifier failure fsys' fullPath
             in case event of
                  FinishEvent \<Rightarrow>
                    (Returns
                       \<lparr>content = ''Created '' @ dquote @ filename @ dquote @ '' file with ''
                            @ string_of_nat (length (data result)) @ '' rows'',
                        structuredContent =
                          Some \<lparr>fullPath = fullPath, fileRowCount = length (data result)\<rparr>,
                        isError = None\<rparr>, p', fsys'')
                | ErrorEvent err \<Rightarrow>
                    (Returns \<lparr>content = ''Error creating file: '' @ err,
                              structuredContent = None, isError = Some True\<rparr>, p', fsys'')
                | NoEvent \<Rightarrow> (Pending, p', fsys'')))"

section \<open>Notions of the specification\<close>

text \<open>
  The definitions of this section are not translated from the code: they state what the
  specification says, so that it can be compared with what the handlers compute.

  The distinct elements of a list in the order of their first occurrence.
\<close>

fun first_seen :: "'a list \<Rightarrow> 'a list" where
  "first_seen [] = []"
| "first_seen (x # xs) = x # filter (\<lambda>y. y \<noteq> x) (first_seen xs)"

text \<open>The grouping key \<open>(schema, table)\<close> of a catalog row and of a table descriptor.\<close>

definition row_key :: "table_row \<Rightarrow> string \<times> string" where
  "row_key v = (table_schema v, table_name v)"

definition tbl_key :: "table_descriptor \<Rightarrow> string \<times> string" where
  "tbl_key t = (tbl_schema t, tbl_name t)"

text \<open>The columns of one table, in the order the catalog query returned its rows.\<close>

definition columns_of :: "table_row list \<Rightarrow> string \<times> string \<Rightarrow> column list" where
  "columns_of rs k = map to_column (filter (\<lambda>v. row_key v = k) rs)"

text \<open>
  One descriptor per distinct \<open>(schema, table)\<close> pair, tables in first-seen order, each with
  its columns in catalog order.
\<close>

definition grouped_by_table :: "table_row list \<Rightarrow> table_descriptor list" where
  "grouped_by_table rs =
     map (\<lambda>k. \<lparr>tbl_schema = fst k, tbl_name = snd k, tbl_columns = columns_of rs k\<rparr>)
       (first_seen (map row_key rs))"

text \<open>
  The part files of the specification: part \<open>i\<close> (counted from 1) of base name \<open>B\<close> is
  \<open>B.parti.csv\<close>, and a row set is partitioned when each of its \<open>ceil(n / 1000)\<close>
  consecutive groups of 1000 rows is the content of its part file.
\<close>

definition part_name :: "string \<Rightarrow> nat \<Rightarrow> string" where
  "part_name base i = base @ ''.part'' @ string_of_nat i @ ''.csv''"

definition partitioned_into_parts :: "'r fs \<Rightarrow> string \<Rightarrow> 'r list \<Rightarrow> bool" where
  "partitioned_into_parts fsys base rs =
     list_all
       (\<lambda>i. map_option csv_rows (files fsys (part_name base (Suc i)))
             = Some (take 1000 (drop (1000 * i) rs)))
       [0..<(length rs + 999) div 1000]"

text \<open>A path lies under an output root when it is the root or continues it after a separator.\<close>

definition under_root :: "string \<Rightarrow> string \<Rightarrow> bool" where
  "under_root root p = (p = root \<or> take (length root + 1) p = root @ ''/'')"

section \<open>Concrete collaborators\<close>

text \<open>
  Inputs on which the handlers are evaluated: rows of a query result,
  \<^verbatim>\<open>Record<string, unknown>\<close>, each as the list of its entries, and 1001 such rows; a
  disk with no file on which every stream opens, one on which none does, and one on which
  every stream opens and takes a single row; a stringifier that raises no error; a pool that
  answers its n-th call with the n-th entry of a script, whatever the statement, and one that
  fails twice; an error value holding a circular reference; catalog rows of text columns,
  sorted or not, and the column objects they become.
\<close>

type_synonym json_row = "(string \<times> jsvalue) list"

definition sample_row :: json_row where
  "sample_row = [(''Id'', JNum 7), (''Title'', JStr ''Pilot'')]"

definition other_row :: json_row where
  "other_row = [(''Id'', JNum 8), (''Title'', JStr ''Second'')]"

definition empty_disk :: "'r fs" where
  "empty_disk =
     \<lparr>files = Map.empty, denied = Map.empty, write_failure = Map.empty, opened = []\<rparr>"

definition never_rejects :: "'r list \<Rightarrow> 'r \<Rightarrow> bool" where
  "never_rejects before row = False"

definition scripted_pool :: "'r list option js list \<Rightarrow> 'r pool" where
  "scripted_pool script =
     \<lparr>respond = (\<lambda>n q vals. if n < length script then script ! n
                              else Throws (Thrown ''Error: Connection terminated'' None)),
      calls = 0\<rparr>"

definition text_column :: "string \<Rightarrow> string \<Rightarrow> string \<Rightarrow> table_row" where
  "text_column s t c =
     \<lparr>column_name = c, data_type = ''text'', identity = False, required = True,
      character_maximum_length = Null, numeric_precision = Null,
      numeric_precision_radix = Null, table_schema = s, table_name = t\<rparr>"

definition catalog_rows :: "table_row list" where
  "catalog_rows =
     [text_column ''public'' ''Series'' ''Id'', text_column ''public'' ''Episodes'' ''Id'',
      text_column ''public'' ''Series'' ''Title'']"

definition text_col :: "string \<Rightarrow> column" where
  "text_col c =
     \<lparr>col_name = c, col_type = ''text'', col_identity = False, col_required = True,
      col_char_max_length = Null, col_num_precision = Null, col_num_precision_radix = Null\<rparr>"

definition id_column_row :: column_row where
  "id_column_row =
     \<lparr>column_name = ''Id'', data_type = ''text'', identity = False, required = True,
      character_maximum_length = Null, numeric_precision = Null,
      numeric_precision_radix = Null\<rparr>"

definition thousand_and_one_rows :: "json_row list" where
  "thousand_and_one_rows = replicate 1001 sample_row"

definition readonly_disk :: "'r fs" where
  "readonly_disk =
     \<lparr>files = Map.empty, denied = (\<lambda>p. Some ''EACCES: permission denied''),
      write_failure = Map.empty, opened = []\<rparr>"

definition full_disk :: "'r fs" where
  "full_disk =
     \<lparr>files = Map.empty, denied = Map.empty,
      write_failure = (\<lambda>p. Some (1, ''ENOSPC: no space left on device'')), opened = []\<rparr>"

definition failing_pool :: "json_row pool" where
  "failing_pool =
     scripted_pool [Throws (Thrown ''error: permission denied for table Series'' None),
                    Throws (Thrown ''error: relation Serie does not exist'' None)]"


section \<open>The query layer\<close>

lemma JSON_stringify_values_accepts:
  "\<forall>n. JBigInt n \<notin> set vals \<Longrightarrow> JSON_stringify_values_throws vals = None"
proof -
  assume a: "\<forall>n. JBigInt n \<notin> set vals"
  have "\<not> list_ex is_bigint vals"
  proof
    assume "list_ex is_bigint vals"
    then obtain v where v: "v \<in> set vals" "is_bigint v" by (auto simp: list_ex_iff)
    from v(2) obtain n where "v = JBigInt n" by (cases v) auto
    with v(1) a show False by auto
  qed
  then show ?thesis by (simp add: JSON_stringify_values_throws_def)
qed

lemma of_json_not_bigint: "JBigInt n \<notin> set (map of_json vals)"
proof
  assume "JBigInt n \<in> set (map of_json vals)"
  then obtain j where "of_json j = JBigInt n" by auto
  then show False by (cases j) auto
qed

lemma JSON_stringify_json_values: "JSON_stringify_values_throws (map of_json vals) = None"
proof (rule JSON_stringify_values_accepts)
  show "\<forall>n. JBigInt n \<notin> set (map of_json vals)"
    using of_json_not_bigint by blast
qed

lemma queryAsync_rejected:
  assumes "JSON_stringify_values_throws vals = None"
    and "respond p (calls p) q vals = Throws err" and "json_failure err = None"
  shows "queryAsync p q vals =
       (Returns \<lparr>error = Some True, message = Caught err, data = []\<rparr>, p\<lparr>calls := calls p + 1\<rparr>)"
  using assms
  by (simp add: queryAsync_def pool_query_def try_catch_def JSON_stringify_throws_def)

lemma queryAsync_returns:
  assumes "JSON_stringify_values_throws vals = None"
    and "respond p (calls p) q vals = Returns rs"
  shows "queryAsync p q vals =
       (Returns \<lparr>error = None, message = Text ''success'', data = rows_or_empty rs\<rparr>,
        p\<lparr>calls := calls p + 1\<rparr>)"
  using assms
  by (simp add: queryAsync_def pool_query_def try_catch_def)

lemma queryAsync_calls:
  "JSON_stringify_values_throws vals = None \<Longrightarrow>
     snd (queryAsync p q vals) = p\<lparr>calls := calls p + 1\<rparr>"
  by (simp add: queryAsync_def pool_query_def)




section \<open>Grouping catalog rows by table\<close>

lemma set_first_seen: "set (first_seen xs) = set xs"
  by (induction xs) auto

lemma distinct_first_seen: "distinct (first_seen xs)"
  by (induction xs) (auto simp: set_first_seen)

lemma first_seen_snoc:
  "first_seen (xs @ [x]) = (if x \<in> set xs then first_seen xs else first_seen xs @ [x])"
  by (induction xs) auto

lemma findIndex_ge: "- 1 \<le> findIndex P xs"
  by (induction xs) (auto simp: Let_def)

lemma findIndex_none: "(findIndex P xs = - 1) = (\<forall>x\<in>set xs. \<not> P x)"
proof (induction xs)
  case Nil
  show ?case by simp
next
  case (Cons x xs)
  have "- 1 \<le> findIndex P xs" by (rule findIndex_ge)
  then show ?case using Cons by (auto simp: Let_def)
qed

lemma findIndex_some:
  "\<exists>x\<in>set xs. P x \<Longrightarrow>
     0 \<le> findIndex P xs \<and> nat (findIndex P xs) < length xs \<and> P (xs ! nat (findIndex P xs))"
proof (induction xs)
  case Nil
  then show ?case by simp
next
  case (Cons x xs)
  show ?case
  proof (cases "P x")
    case True
    then show ?thesis by simp
  next
    case False
    with Cons.prems have ex: "\<exists>y\<in>set xs. P y" by auto
    then have ne: "findIndex P xs \<noteq> - 1" by (simp add: findIndex_none)
    from Cons.IH[OF ex] have ih: "0 \<le> findIndex P xs" "nat (findIndex P xs) < length xs"
      "P (xs ! nat (findIndex P xs))" by auto
    have "nat (findIndex P xs + 1) = Suc (nat (findIndex P xs))" using ih(1) by simp
    then show ?thesis using False ne ih by (simp add: Let_def)
  qed
qed

lemma tbl_key_grouped: "map tbl_key (grouped_by_table rs) = first_seen (map row_key rs)"
  by (simp add: grouped_by_table_def tbl_key_def comp_def)

lemma columns_of_snoc:
  "columns_of (rs @ [v]) k =
     (if row_key v = k then columns_of rs k @ [to_column v] else columns_of rs k)"
  by (simp add: columns_of_def)

lemma columns_of_absent: "k \<notin> set (map row_key rs) \<Longrightarrow> columns_of rs k = []"
  by (auto simp: columns_of_def filter_empty_conv)

lemma columns_of_present: "k \<in> set (map row_key rs) \<Longrightarrow> columns_of rs k \<noteq> []"
  by (auto simp: columns_of_def filter_empty_conv)

lemma push_column_new:
  assumes "row_key v \<notin> set (map row_key rs)"
  shows "push_column (grouped_by_table rs) v = grouped_by_table (rs @ [v])"
proof -
  let ?P = "\<lambda>row. tbl_schema row = table_schema v \<and> tbl_name row = table_name v"
  have P: "\<And>t. ?P t = (tbl_key t = row_key v)"
    by (auto simp: tbl_key_def row_key_def)
  have "\<forall>t\<in>set (grouped_by_table rs). tbl_key t \<noteq> row_key v"
  proof
    fix t assume "t \<in> set (grouped_by_table rs)"
    then have "tbl_key t \<in> set (map tbl_key (grouped_by_table rs))" by simp
    then have "tbl_key t \<in> set (map row_key rs)"
      by (simp only: tbl_key_grouped set_first_seen)
    with assms show "tbl_key t \<noteq> row_key v" by auto
  qed
  then have idx: "findIndex ?P (grouped_by_table rs) = - 1"
    by (simp add: findIndex_none P)
  have same: "\<And>k. k \<in> set (first_seen (map row_key rs)) \<Longrightarrow> columns_of (rs @ [v]) k = columns_of rs k"
    using assms by (auto simp: columns_of_snoc set_first_seen)
  have lhs: "push_column (grouped_by_table rs) v =
      grouped_by_table rs @ [\<lparr>tbl_schema = table_schema v, tbl_name = table_name v,
         tbl_columns = [to_column v]\<rparr>]"
    using idx by (simp add: push_column_def Let_def)
  have rhs: "grouped_by_table (rs @ [v]) =
      grouped_by_table rs @ [\<lparr>tbl_schema = table_schema v, tbl_name = table_name v,
         tbl_columns = [to_column v]\<rparr>]"
    using assms same columns_of_absent[OF assms]
    by (simp add: grouped_by_table_def first_seen_snoc columns_of_snoc row_key_def)
  show ?thesis using lhs rhs by simp
qed

lemma push_column_known:
  assumes "row_key v \<in> set (map row_key rs)"
  shows "push_column (grouped_by_table rs) v = grouped_by_table (rs @ [v])"
proof -
  let ?P = "\<lambda>row. tbl_schema row = table_schema v \<and> tbl_name row = table_name v"
  let ?ks = "first_seen (map row_key rs)"
  let ?g = "grouped_by_table rs"
  let ?i = "nat (findIndex ?P ?g)"
  let ?u = "?g[?i := (?g ! ?i)\<lparr>tbl_columns := tbl_columns (?g ! ?i) @ [to_column v]\<rparr>]"
  have P: "\<And>t. ?P t = (tbl_key t = row_key v)"
    by (auto simp: tbl_key_def row_key_def)
  have "row_key v \<in> set (map tbl_key ?g)"
    using assms by (simp only: tbl_key_grouped set_first_seen)
  then have ex: "\<exists>t\<in>set ?g. ?P t" by (auto simp: P)
  from findIndex_some[OF ex] have i0: "0 \<le> findIndex ?P ?g" and il: "?i < length ?g"
    and iP: "?P (?g ! ?i)" by auto
  have ne: "findIndex ?P ?g \<noteq> - 1" using i0 by simp
  have len: "length ?g = length ?ks" by (simp add: grouped_by_table_def)
  have ki: "?ks ! ?i = row_key v"
  proof -
    have "tbl_key (?g ! ?i) = row_key v" using iP by (simp add: P)
    moreover have "tbl_key (?g ! ?i) = map tbl_key ?g ! ?i" using il by simp
    ultimately show ?thesis by (simp only: tbl_key_grouped)
  qed
  have lhs: "push_column ?g v = ?u"
    using ne by (simp add: push_column_def Let_def)
  have fs: "first_seen (map row_key (rs @ [v])) = ?ks"
    using assms by (simp add: first_seen_snoc)
  have "grouped_by_table (rs @ [v]) = ?u"
  proof (rule nth_equalityI)
    show "length (grouped_by_table (rs @ [v])) = length ?u"
      using fs by (simp add: grouped_by_table_def)
  next
    fix j assume "j < length (grouped_by_table (rs @ [v]))"
    then have jl: "j < length ?ks" using fs by (simp add: grouped_by_table_def)
    have d: "distinct ?ks" by (rule distinct_first_seen)
    show "grouped_by_table (rs @ [v]) ! j = ?u ! j"
    proof (cases "j = ?i")
      case True
      then show ?thesis using jl ki fs len
        by (simp add: grouped_by_table_def columns_of_snoc del: map_append)
    next
      case False
      have "?ks ! j \<noteq> ?ks ! ?i"
        using d jl il len False by (simp add: nth_eq_iff_index_eq)
      then have "row_key v \<noteq> ?ks ! j" using ki by simp
      then show ?thesis using jl False fs len
        by (simp add: grouped_by_table_def columns_of_snoc del: map_append)
    qed
  qed
  then show ?thesis using lhs by simp
qed

lemma foldl_push_column: "foldl push_column [] rs = grouped_by_table rs"
proof (induction rs rule: rev_induct)
  case Nil
  show ?case by (simp add: grouped_by_table_def)
next
  case (snoc v rs)
  then show ?case
    by (cases "row_key v \<in> set (map row_key rs)") (simp_all add: push_column_new push_column_known)
qed

lemma grouped_columns_nonempty: "\<forall>t\<in>set (grouped_by_table rs). tbl_columns t \<noteq> []"
proof
  fix t assume "t \<in> set (grouped_by_table rs)"
  then obtain k where k: "k \<in> set (first_seen (map row_key rs))"
    and t: "t = \<lparr>tbl_schema = fst k, tbl_name = snd k, tbl_columns = columns_of rs k\<rparr>"
    by (auto simp: grouped_by_table_def)
  from k have "k \<in> set (map row_key rs)" by (simp only: set_first_seen)
  then have "columns_of rs k \<noteq> []" by (rule columns_of_present)
  then show "tbl_columns t \<noteq> []" by (simp add: t)
qed

lemma grouped_columns: "\<forall>t\<in>set (grouped_by_table rs). tbl_columns t = columns_of rs (tbl_key t)"
  by (auto simp: grouped_by_table_def tbl_key_def)

lemma describeTables_returns:
  assumes "respond p (calls p) describeTables_query [JStr schema] = Returns rs"
  shows "describeTablesHandlerAsync p schema =
     (Returns \<lparr>content = ''Found '' @ string_of_nat (length (remdups (map table_name (rows_or_empty rs))))
                  @ '' tables in the '' @ apos @ schema @ apos @ '' schema'',
               structuredContent = Some \<lparr>tables = grouped_by_table (rows_or_empty rs)\<rparr>,
               isError = None\<rparr>,
      p\<lparr>calls := calls p + 1\<rparr>)"
proof -
  have ok: "JSON_stringify_values_throws [JStr schema] = None"
    by (simp add: JSON_stringify_values_throws_def)
  show ?thesis
    by (simp add: describeTablesHandlerAsync_def queryAsync_returns [OF ok assms]
        foldl_push_column)
qed

text \<open>
  C8. A successful \<open>describe_tables\<close> call returns exactly one descriptor per distinct
  \<open>(schema, table)\<close> pair of the catalog rows, the tables in first-seen order, and each
  table's columns are the columns of its rows in the order the catalog query returned them.
\<close>

theorem describeTables_groups_by_table:
  assumes "respond p (calls p) describeTables_query [JStr schema] = Returns rs"
  shows "\<exists>msg ts. fst (describeTablesHandlerAsync p schema)
             = Returns \<lparr>content = msg, structuredContent = Some \<lparr>tables = ts\<rparr>, isError = None\<rparr>
           \<and> ts = grouped_by_table (rows_or_empty rs)
           \<and> map tbl_key ts = first_seen (map row_key (rows_or_empty rs))
           \<and> distinct (map tbl_key ts)
           \<and> set (map tbl_key ts) = set (map row_key (rows_or_empty rs))
           \<and> (\<forall>t\<in>set ts. tbl_columns t
                  = map to_column (filter (\<lambda>v. row_key v = tbl_key t) (rows_or_empty rs)))"
proof -
  let ?rows = "rows_or_empty rs"
  let ?ts = "grouped_by_table ?rows"
  have keys: "map tbl_key ?ts = first_seen (map row_key ?rows)"
    by (rule tbl_key_grouped)
  have dist: "distinct (map tbl_key ?ts)"
    by (simp only: keys distinct_first_seen)
  have sets: "set (map tbl_key ?ts) = set (map row_key ?rows)"
    by (simp only: keys set_first_seen)
  have cols: "\<forall>t\<in>set ?ts. tbl_columns t = map to_column (filter (\<lambda>v. row_key v = tbl_key t) ?rows)"
    using grouped_columns [of ?rows] by (simp add: columns_of_def)
  have res: "fst (describeTablesHandlerAsync p schema) =
      Returns \<lparr>content = ''Found '' @ string_of_nat (length (remdups (map table_name ?rows)))
                  @ '' tables in the '' @ apos @ schema @ apos @ '' schema'',
               structuredContent = Some \<lparr>tables = ?ts\<rparr>, isError = None\<rparr>"
    by (simp add: describeTables_returns [OF assms])
  show ?thesis
    using res keys dist sets cols by blast
qed

lemma grouped_catalog_rows:
  "grouped_by_table catalog_rows =
     [\<lparr>tbl_schema = ''public'', tbl_name = ''Series'', tbl_columns = [text_col ''Id'', text_col ''Title'']\<rparr>,
      \<lparr>tbl_schema = ''public'', tbl_name = ''Episodes'', tbl_columns = [text_col ''Id'']\<rparr>]"
  by (simp add: grouped_by_table_def catalog_rows_def text_column_def row_key_def columns_of_def
      to_column_def text_col_def)

theorem describeTables_groups_by_table_witness:
  "respond (scripted_pool [Returns (Some catalog_rows)]) (calls (scripted_pool [Returns (Some catalog_rows)]))
      describeTables_query [JStr ''public''] = Returns (Some catalog_rows)
   \<and> (\<exists>msg. fst (describeTablesHandlerAsync (scripted_pool [Returns (Some catalog_rows)]) ''public'')
        = Returns \<lparr>content = msg,
             structuredContent = Some \<lparr>tables =
               [\<lparr>tbl_schema = ''public'', tbl_name = ''Series'',
                 tbl_columns = [text_col ''Id'', text_col ''Title'']\<rparr>,
                \<lparr>tbl_schema = ''public'', tbl_name = ''Episodes'',
                 tbl_columns = [text_col ''Id'']\<rparr>]\<rparr>,
             isError = None\<rparr>)"
proof -
  let ?p = "scripted_pool [Returns (Some catalog_rows)]"
  have h: "respond ?p (calls ?p) describeTables_query [JStr ''public''] = Returns (Some catalog_rows)"
    by (simp add: scripted_pool_def)
  from describeTables_groups_by_table [OF h]
  obtain msg ts where
    "fst (describeTablesHandlerAsync ?p ''public'')
       = Returns \<lparr>content = msg, structuredContent = Some \<lparr>tables = ts\<rparr>, isError = None\<rparr>"
    and "ts = grouped_by_table (rows_or_empty (Some catalog_rows))"
    by blast
  then show ?thesis
    using h by (simp add: rows_or_empty_def grouped_catalog_rows)
qed

section \<open>Describing one table\<close>

lemma describeTable_returns:
  assumes "respond p (calls p) describeTable_query [JStr table, JStr schema] = Returns rs"
  shows "describeTableHandlerAsync p table schema =
     (Returns \<lparr>content = ''Found '' @ string_of_nat (length (rows_or_empty rs))
                  @ '' columns in the '' @ apos @ schema @ ''.'' @ dquote @ table @ dquote
                  @ apos @ '' table'',
               structuredContent =
                 Some \<lparr>dto_schema = schema, dto_table = table,
                       dto_columns = map to_column (rows_or_empty rs)\<rparr>,
               isError = None\<rparr>,
      p\<lparr>calls := calls p + 1\<rparr>)"
proof -
  have ok: "JSON_stringify_values_throws [JStr table, JStr schema] = None"
    by (simp add: JSON_stringify_values_throws_def)
  show ?thesis
    by (simp add: describeTableHandlerAsync_def queryAsync_returns [OF ok assms])
qed

text \<open>
  C9, as the claim states it, fails for \<open>describe_table\<close>: when the catalog has no row
  for the table asked for, the call succeeds and returns a descriptor with no column.
\<close>

theorem describeTable_no_rows_no_columns:
  "fst (describeTableHandlerAsync (scripted_pool [Returns (Some [])]) ''NoSuchTable'' ''public'')
     = Returns \<lparr>content = ''Found 0 columns in the '' @ apos @ ''public.'' @ dquote
                    @ ''NoSuchTable'' @ dquote @ apos @ '' table'',
                 structuredContent =
                   Some \<lparr>dto_schema = ''public'', dto_table = ''NoSuchTable'', dto_columns = []\<rparr>,
                 isError = None\<rparr>"
  by (simp add: describeTableHandlerAsync_def queryAsync_def pool_query_def try_catch_def
      JSON_stringify_values_throws_def scripted_pool_def rows_or_empty_def
      string_of_nat.simps digit_def)

text \<open>
  C9, amended.  Every descriptor of a successful \<open>describe_tables\<close> call has at least one
  column, and no two of its descriptors share \<open>(schema, name)\<close>.  A successful
  \<open>describe_table\<close> call returns the single descriptor of the schema and table asked for,
  whose columns are the catalog rows in order: none when the catalog returned no row.
\<close>

theorem introspection_descriptors:
  "(respond p (calls p) describeTables_query [JStr schema] = Returns rs \<longrightarrow>
      (\<exists>msg ts. fst (describeTablesHandlerAsync p schema)
          = Returns \<lparr>content = msg, structuredContent = Some \<lparr>tables = ts\<rparr>, isError = None\<rparr>
        \<and> (\<forall>t\<in>set ts. tbl_columns t \<noteq> [])
        \<and> distinct (map tbl_key ts)))
   \<and> (respond q (calls q) describeTable_query [JStr table, JStr sch] = Returns cs \<longrightarrow>
      (\<exists>msg. fst (describeTableHandlerAsync q table sch)
          = Returns \<lparr>content = msg,
               structuredContent = Some \<lparr>dto_schema = sch, dto_table = table,
                 dto_columns = map to_column (rows_or_empty cs)\<rparr>,
               isError = None\<rparr>))"
proof (intro conjI impI)
  assume h: "respond p (calls p) describeTables_query [JStr schema] = Returns rs"
  let ?ts = "grouped_by_table (rows_or_empty rs)"
  have ne: "\<forall>t\<in>set ?ts. tbl_columns t \<noteq> []" by (rule grouped_columns_nonempty)
  have d: "distinct (map tbl_key ?ts)"
    by (simp only: tbl_key_grouped distinct_first_seen)
  have res: "fst (describeTablesHandlerAsync p schema) =
      Returns \<lparr>content = ''Found '' @ string_of_nat (length (remdups (map table_name (rows_or_empty rs))))
                  @ '' tables in the '' @ apos @ schema @ apos @ '' schema'',
               structuredContent = Some \<lparr>tables = ?ts\<rparr>, isError = None\<rparr>"
    by (simp add: describeTables_returns [OF h])
  show "\<exists>msg ts. fst (describeTablesHandlerAsync p schema)
          = Returns \<lparr>content = msg, structuredContent = Some \<lparr>tables = ts\<rparr>, isError = None\<rparr>
        \<and> (\<forall>t\<in>set ts. tbl_columns t \<noteq> [])
        \<and> distinct (map tbl_key ts)"
    using res ne d by blast
next
  assume h: "respond q (calls q) describeTable_query [JStr table, JStr sch] = Returns cs"
  show "\<exists>msg. fst (describeTableHandlerAsync q table sch)
          = Returns \<lparr>content = msg,
               structuredContent = Some \<lparr>dto_schema = sch, dto_table = table,
                 dto_columns = map to_column (rows_or_empty cs)\<rparr>,
               isError = None\<rparr>"
    by (simp add: describeTable_returns [OF h])
qed

theorem introspection_descriptors_witness:
  "respond (scripted_pool [Returns (Some catalog_rows)]) (calls (scripted_pool [Returns (Some catalog_rows)]))
      describeTables_query [JStr ''public''] = Returns (Some catalog_rows)
   \<and> respond (scripted_pool [Returns (Some [id_column_row])]) (calls (scripted_pool [Returns (Some [id_column_row])]))
      describeTable_query [JStr ''Series'', JStr ''public''] = Returns (Some [id_column_row])
   \<and> (\<exists>msg ts. fst (describeTablesHandlerAsync (scripted_pool [Returns (Some catalog_rows)]) ''public'')
          = Returns \<lparr>content = msg, structuredContent = Some \<lparr>tables = ts\<rparr>, isError = None\<rparr>
        \<and> list_all (\<lambda>t. tbl_columns t \<noteq> []) ts
        \<and> distinct (map tbl_key ts))
   \<and> (\<exists>msg. fst (describeTableHandlerAsync (scripted_pool [Returns (Some [id_column_row])]) ''Series'' ''public'')
          = Returns \<lparr>content = msg,
               structuredContent = Some \<lparr>dto_schema = ''public'', dto_table = ''Series'',
                 dto_columns = [text_col ''Id'']\<rparr>,
               isError = None\<rparr>)"
proof -
  let ?p = "scripted_pool [Returns (Some catalog_rows)]"
  let ?q = "scripted_pool [Returns (Some [id_column_row])]"
  have hp: "respond ?p (calls ?p) describeTables_query [JStr ''public''] = Returns (Some catalog_rows)"
    by (simp add: scripted_pool_def)
  have hq: "respond ?q (calls ?q) describeTable_query [JStr ''Series'', JStr ''public'']
      = Returns (Some [id_column_row])"
    by (simp add: scripted_pool_def)
  have c: "map to_column (rows_or_empty (Some [id_column_row])) = [text_col ''Id'']"
    by (simp add: rows_or_empty_def to_column_def id_column_row_def text_col_def)
  show ?thesis
    using hp hq c
      introspection_descriptors [where p = ?p and schema = "''public''" and rs = "Some catalog_rows"
        and q = ?q and table = "''Series''" and sch = "''public''" and cs = "Some [id_column_row]"]
    by (simp add: list_all_iff)
qed

section \<open>The file-producing handlers\<close>

lemma foldl_write_errored: "errored s \<Longrightarrow> foldl (stringifier_write rejects) s rs = s"
  by (induction rs) (simp_all add: stringifier_write_def)

lemma foldl_write_accepted:
  "\<not> errored s \<Longrightarrow> \<forall>i<length rs. \<not> rejects (transformed s @ take i rs) (rs ! i) \<Longrightarrow>
     foldl (stringifier_write rejects) s rs = s\<lparr>transformed := transformed s @ rs\<rparr>"
proof (induction rs arbitrary: s)
  case Nil
  then show ?case by simp
next
  case (Cons r rs)
  let ?s = "s\<lparr>transformed := transformed s @ [r]\<rparr>"
  from Cons.prems(2) have r: "\<not> rejects (transformed s) r" by force
  have step: "stringifier_write rejects s r = ?s"
    using Cons.prems(1) r by (simp add: stringifier_write_def)
  have ne: "\<not> errored ?s" using Cons.prems(1) by simp
  have rest: "\<forall>i<length rs. \<not> rejects (transformed ?s @ take i rs) (rs ! i)"
  proof (intro allI impI)
    fix i assume "i < length rs"
    then have "Suc i < length (r # rs)" by simp
    with Cons.prems(2) have "\<not> rejects (transformed s @ take (Suc i) (r # rs)) ((r # rs) ! Suc i)"
      by blast
    then show "\<not> rejects (transformed ?s @ take i rs) (rs ! i)" by simp
  qed
  show ?case using Cons.IH [OF ne rest] by (simp add: step)
qed

lemma foldl_write_rejected:
  "\<not> errored s \<Longrightarrow> \<exists>i<length rs. rejects (transformed s @ take i rs) (rs ! i) \<Longrightarrow>
     errored (foldl (stringifier_write rejects) s rs)"
proof (induction rs arbitrary: s)
  case Nil
  then show ?case by simp
next
  case (Cons r rs)
  show ?case
  proof (cases "rejects (transformed s) r")
    case True
    then have "stringifier_write rejects s r = s\<lparr>errored := True\<rparr>"
      using Cons.prems(1) by (simp add: stringifier_write_def)
    then show ?thesis by (simp add: foldl_write_errored)
  next
    case False
    let ?s = "s\<lparr>transformed := transformed s @ [r]\<rparr>"
    have step: "stringifier_write rejects s r = ?s"
      using Cons.prems(1) False by (simp add: stringifier_write_def)
    have ne: "\<not> errored ?s" using Cons.prems(1) by simp
    from Cons.prems(2) obtain i where i: "i < length (r # rs)"
      "rejects (transformed s @ take i (r # rs)) ((r # rs) ! i)" by blast
    with False obtain j where j: "i = Suc j" by (cases i) auto
    have "\<exists>j<length rs. rejects (transformed ?s @ take j rs) (rs ! j)"
      using i j by auto
    from Cons.IH [OF ne this] show ?thesis by (simp add: step)
  qed
qed

lemma stringifier_accepts_all:
  "\<forall>i<length rs. \<not> rejects (take i rs) (rs ! i) \<Longrightarrow>
     foldl (stringifier_write rejects) (stringify opts) rs
       = \<lparr>options = opts, transformed = rs, errored = False\<rparr>"
  using foldl_write_accepted [of "stringify opts" rs rejects]
  by (simp add: stringify_def)

lemma stringifier_rejects_one:
  "\<exists>i<length rs. rejects (take i rs) (rs ! i) \<Longrightarrow>
     errored (foldl (stringifier_write rejects) (stringify opts) rs)"
  using foldl_write_rejected [of "stringify opts" rs rejects]
  by (simp add: stringify_def)

lemma pipe_and_end_opened: "opened (snd (pipe_and_end s failure fsys fp)) = opened fsys"
  by (simp add: pipe_and_end_def split: option.splits)

lemma pipe_and_end_other:
  "other \<noteq> fp \<Longrightarrow> files (snd (pipe_and_end s failure fsys fp)) other = files fsys other"
  by (simp add: pipe_and_end_def split: option.splits)

lemma pipe_and_end_errored: "errored s \<Longrightarrow> fst (pipe_and_end s failure fsys fp) = NoEvent"
  by (simp add: pipe_and_end_def split: option.splits)

lemma createFromJsonToFS_fs:
  "snd (createFromJsonToFSHandlerAsync join rejects fsys filename path contents)
     = snd (pipe_and_end
              (foldl (stringifier_write rejects) (stringify stringifier_options) contents)
              (denied fsys (join path filename))
              (fsys\<lparr>opened := opened fsys @ [join path filename]\<rparr>) (join path filename))"
  by (simp add: createFromJsonToFSHandlerAsync_def createWriteStream_def Let_def
      split: prod.splits stream_event.splits)

lemma createFromJsonToFS_streams:
  "opened (snd (createFromJsonToFSHandlerAsync join rejects fsys filename path contents))
     = opened fsys @ [join path filename]"
  by (simp add: createFromJsonToFS_fs pipe_and_end_opened)

lemma createFromJsonToFS_other:
  "other \<noteq> join path filename \<Longrightarrow>
     files (snd (createFromJsonToFSHandlerAsync join rejects fsys filename path contents)) other
       = files fsys other"
  by (simp add: createFromJsonToFS_fs pipe_and_end_other)

lemma createFromJsonToFS_rejected:
  assumes "\<exists>i<length contents. rejects (take i contents) (contents ! i)"
  shows "fst (createFromJsonToFSHandlerAsync join rejects fsys filename path contents) = Pending"
proof -
  have e: "errored (foldl (stringifier_write rejects) (stringify stringifier_options) contents)"
    using assms by (rule stringifier_rejects_one)
  show ?thesis
    using pipe_and_end_errored [OF e, of "denied fsys (join path filename)"
        "fsys\<lparr>opened := opened fsys @ [join path filename]\<rparr>" "join path filename"]
    by (auto simp: createFromJsonToFSHandlerAsync_def createWriteStream_def Let_def
        split: prod.splits)
qed

lemma createFromJsonToFS_accepted:
  assumes "\<forall>i<length contents. \<not> rejects (take i contents) (contents ! i)"
  shows "createFromJsonToFSHandlerAsync join rejects fsys filename path contents =
     (case denied fsys (join path filename) of
        Some err \<Rightarrow>
          (Returns \<lparr>content = ''Error creating file: '' @ err, structuredContent = None,
                    isError = Some True\<rparr>,
           fsys\<lparr>opened := opened fsys @ [join path filename]\<rparr>)
      | None \<Rightarrow>
          (case write_failure fsys (join path filename) of
             Some (k, msg) \<Rightarrow>
               if k < length contents then
                 (Returns \<lparr>content = ''Error creating file: '' @ msg, structuredContent = None,
                           isError = Some True\<rparr>,
                  fsys\<lparr>files := (files fsys)(join path filename \<mapsto>
                           \<lparr>csv_options = stringifier_options, csv_rows = take k contents\<rparr>),
                       opened := opened fsys @ [join path filename]\<rparr>)
               else
                 (Returns \<lparr>content = ''Created '' @ dquote @ filename @ dquote
                             @ '' file with '' @ string_of_nat (length contents) @ '' rows'',
                           structuredContent =
                             Some \<lparr>fullPath = join path filename,
                                   fileRowCount = length contents\<rparr>,
                           isError = None\<rparr>,
                  fsys\<lparr>files := (files fsys)(join path filename \<mapsto>
                           \<lparr>csv_options = stringifier_options, csv_rows = contents\<rparr>),
                       opened := opened fsys @ [join path filename]\<rparr>)
           | None \<Rightarrow>
               (Returns \<lparr>content = ''Created '' @ dquote @ filename @ dquote
                           @ '' file with '' @ string_of_nat (length contents) @ '' rows'',
                         structuredContent =
                           Some \<lparr>fullPath = join path filename,
                                 fileRowCount = length contents\<rparr>,
                         isError = None\<rparr>,
                fsys\<lparr>files := (files fsys)(join path filename \<mapsto>
                         \<lparr>csv_options = stringifier_options, csv_rows = contents\<rparr>),
                     opened := opened fsys @ [join path filename]\<rparr>)))"
  by (simp add: createFromJsonToFSHandlerAsync_def createWriteStream_def pipe_and_end_def
      landed_def stringifier_accepts_all [OF assms] Let_def split: option.splits)

lemma createFromJsonToFS_success:
  assumes "fst (createFromJsonToFSHandlerAsync join rejects fsys filename path contents) = Returns r"
    and "isError r = None"
  shows "r = \<lparr>content = ''Created '' @ dquote @ filename @ dquote
                 @ '' file with '' @ string_of_nat (length contents) @ '' rows'',
               structuredContent =
                 Some \<lparr>fullPath = join path filename, fileRowCount = length contents\<rparr>,
               isError = None\<rparr>
       \<and> files (snd (createFromJsonToFSHandlerAsync join rejects fsys filename path contents))
            (join path filename)
          = Some \<lparr>csv_options = stringifier_options, csv_rows = contents\<rparr>"
proof (cases "\<exists>i<length contents. rejects (take i contents) (contents ! i)")
  case True
  from createFromJsonToFS_rejected [OF True] assms(1) show ?thesis by simp
next
  case False
  then have acc: "\<forall>i<length contents. \<not> rejects (take i contents) (contents ! i)" by blast
  show ?thesis
    using assms
    by (auto simp: createFromJsonToFS_accepted [OF acc] split: option.splits if_splits)
qed

lemma queryHandler_pool:
  "snd (queryHandlerAsync p q vals) = p\<lparr>calls := calls p + 1\<rparr>"
proof -
  have "snd (queryHandlerAsync p q vals) = snd (queryAsync p q (map of_json vals))"
    by (simp add: queryHandlerAsync_def split: prod.splits js.splits)
  then show ?thesis by (simp add: queryAsync_calls JSON_stringify_json_values)
qed

lemma saveQueryResult_pool:
  "fst (snd (saveQueryResultHandlerAsync join rejects p fsys q vals filename path))
     = p\<lparr>calls := calls p + 1\<rparr>"
proof -
  have "fst (snd (saveQueryResultHandlerAsync join rejects p fsys q vals filename path))
      = snd (queryAsync p q (map of_json vals))"
    by (simp add: saveQueryResultHandlerAsync_def Let_def
        split: prod.splits js.splits stream_event.splits)
  then show ?thesis by (simp add: queryAsync_calls JSON_stringify_json_values)
qed

lemma queryHandler_rejected:
  assumes "respond p (calls p) q (map of_json vals) = Throws err" and "json_failure err = None"
  shows "queryHandlerAsync p q vals =
     (Returns \<lparr>content = ''Error querying database: '' @ rendering err,
               structuredContent = None, isError = Some True\<rparr>, p\<lparr>calls := calls p + 1\<rparr>)"
  by (simp add: queryHandlerAsync_def
      queryAsync_rejected [OF JSON_stringify_json_values assms])

lemma queryHandler_no_rows:
  assumes "respond p (calls p) q (map of_json vals) = Returns rs" and "rows_or_empty rs = []"
  shows "queryHandlerAsync p q vals =
     (Returns \<lparr>content = ''No result found'',
               structuredContent = Some \<lparr>rowCount = 0, rows = []\<rparr>, isError = None\<rparr>,
      p\<lparr>calls := calls p + 1\<rparr>)"
  using assms(2)
  by (simp add: queryHandlerAsync_def
      queryAsync_returns [OF JSON_stringify_json_values assms(1)])

lemma runQueryHandler_no_rows:
  assumes "respond p (calls p) q (map of_json vals) = Returns rs" and "rows_or_empty rs = []"
  shows "runQueryHandlerAsync p q vals =
     (Returns \<lparr>content = ''No result found'',
               structuredContent = Some \<lparr>rowCount = 0, rows = []\<rparr>, isError = None\<rparr>,
      p\<lparr>calls := calls p + 1\<rparr>)"
  using assms(2)
  by (simp add: runQueryHandlerAsync_def
      queryAsync_returns [OF JSON_stringify_json_values assms(1)])

lemma saveQueryResult_rejected:
  assumes "respond p (calls p) q (map of_json vals) = Throws err" and "json_failure err = None"
  shows "saveQueryResultHandlerAsync join rejects p fsys q vals filename path =
     (Returns \<lparr>content = ''Error querying database: '' @ rendering err,
               structuredContent = None, isError = Some True\<rparr>,
      p\<lparr>calls := calls p + 1\<rparr>, fsys)"
  by (simp add: saveQueryResultHandlerAsync_def
      queryAsync_rejected [OF JSON_stringify_json_values assms])

lemma saveQueryResult_no_rows:
  assumes "respond p (calls p) q (map of_json vals) = Returns rs" and "rows_or_empty rs = []"
  shows "saveQueryResultHandlerAsync join rejects p fsys q vals filename path =
     (Returns \<lparr>content = ''No CSV file generated because no result was found'',
               structuredContent = Some \<lparr>fullPath = '''', fileRowCount = 0\<rparr>, isError = None\<rparr>,
      p\<lparr>calls := calls p + 1\<rparr>, fsys)"
  using assms(2)
  by (simp add: saveQueryResultHandlerAsync_def
      queryAsync_returns [OF JSON_stringify_json_values assms(1)])

lemma saveQueryResult_writes:
  assumes "respond p (calls p) q (map of_json vals) = Returns (Some rs)" and "rs \<noteq> []"
  shows "saveQueryResultHandlerAsync join rejects p fsys q vals filename path =
     (fst (createFromJsonToFSHandlerAsync join rejects fsys filename path rs),
      p\<lparr>calls := calls p + 1\<rparr>,
      snd (createFromJsonToFSHandlerAsync join rejects fsys filename path rs))"
  using assms(2)
  by (simp add: saveQueryResultHandlerAsync_def createFromJsonToFSHandlerAsync_def
      queryAsync_returns [OF JSON_stringify_json_values assms(1)] rows_or_empty_def Let_def
      split: prod.splits stream_event.splits)

lemma saveQueryResult_fs:
  "snd (snd (saveQueryResultHandlerAsync join rejects p fsys q vals filename path)) =
     (case respond p (calls p) q (map of_json vals) of
        Returns (Some (r # rs)) \<Rightarrow>
          snd (createFromJsonToFSHandlerAsync join rejects fsys filename path (r # rs))
      | _ \<Rightarrow> fsys)"
proof (cases "respond p (calls p) q (map of_json vals)")
  case (Throws err)
  then show ?thesis
    by (simp add: saveQueryResultHandlerAsync_def queryAsync_def pool_query_def try_catch_def
        JSON_stringify_json_values split: option.splits)
next
  case Pending
  then show ?thesis
    by (simp add: saveQueryResultHandlerAsync_def queryAsync_def pool_query_def try_catch_def
        JSON_stringify_json_values)
next
  case (Returns rows)
  show ?thesis
  proof (cases rows)
    case None
    with Returns show ?thesis
      by (simp add: saveQueryResult_no_rows [OF Returns] rows_or_empty_def)
  next
    case (Some rs)
    show ?thesis
    proof (cases rs)
      case Nil
      with Some Returns show ?thesis
        by (simp add: saveQueryResult_no_rows [OF Returns] rows_or_empty_def)
    next
      case (Cons r rs')
      with Some Returns have h: "respond p (calls p) q (map of_json vals) = Returns (Some (r # rs'))"
        by simp
      show ?thesis
        by (simp add: saveQueryResult_writes [OF h] h)
    qed
  qed
qed

lemma saveQueryResult_other:
  "other \<noteq> join path filename \<Longrightarrow>
     files (snd (snd (saveQueryResultHandlerAsync join rejects p fsys q vals filename path))) other
       = files fsys other"
  by (simp add: saveQueryResult_fs createFromJsonToFS_other
      split: js.splits option.splits list.splits)

lemma saveQueryResult_streams:
  "opened (snd (snd (saveQueryResultHandlerAsync join rejects p fsys q vals filename path))) =
     (case respond p (calls p) q (map of_json vals) of
        Returns (Some (r # rs)) \<Rightarrow> opened fsys @ [join path filename]
      | _ \<Rightarrow> opened fsys)"
  by (simp add: saveQueryResult_fs createFromJsonToFS_streams
      split: js.splits option.splits list.splits)

section \<open>Large row sets\<close>

text \<open>
  C1, as the claim states it, fails: \<open>create_fromjson_tofs\<close> called with 1001 rows, base
  name \<open>report\<close> and directory \<open>/out\<close> on an empty disk opens one stream, at
  \<open>/out/report.csv\<close>, and that file receives all 1001 rows.  No part file exists, so the
  rows are not partitioned into \<open>report.part1.csv\<close> and \<open>report.part2.csv\<close>.
\<close>

theorem thousand_and_one_rows_one_file:
  "\<not> partitioned_into_parts
       (snd (createFromJsonToFSHandlerAsync sep_join never_rejects empty_disk ''report.csv''
               ''/out'' thousand_and_one_rows))
       ''/out/report'' thousand_and_one_rows
   \<and> fst (createFromJsonToFSHandlerAsync sep_join never_rejects empty_disk ''report.csv''
            ''/out'' thousand_and_one_rows)
       = Returns
           \<lparr>content = ''Created '' @ dquote @ ''report.csv'' @ dquote @ '' file with 1001 rows'',
            structuredContent = Some \<lparr>fullPath = ''/out/report.csv'', fileRowCount = 1001\<rparr>,
            isError = None\<rparr>
   \<and> opened (snd (createFromJsonToFSHandlerAsync sep_join never_rejects empty_disk
                ''report.csv'' ''/out'' thousand_and_one_rows))
       = [''/out/report.csv'']
   \<and> dom (files (snd (createFromJsonToFSHandlerAsync sep_join never_rejects empty_disk
                ''report.csv'' ''/out'' thousand_and_one_rows)))
       = {''/out/report.csv''}
   \<and> map_option csv_rows
         (files (snd (createFromJsonToFSHandlerAsync sep_join never_rejects empty_disk
                  ''report.csv'' ''/out'' thousand_and_one_rows)) ''/out/report.csv'')
       = Some thousand_and_one_rows
   \<and> length thousand_and_one_rows = 1001"
proof -
  have acc: "\<forall>i<length thousand_and_one_rows.
      \<not> never_rejects (take i thousand_and_one_rows) (thousand_and_one_rows ! i)"
    by (simp add: never_rejects_def)
  have n: "length thousand_and_one_rows = 1001"
    by (simp add: thousand_and_one_rows_def)
  have s: "string_of_nat 1001 = ''1001''"
    by (simp add: string_of_nat.simps digit_def)
  have one: "string_of_nat (Suc 0) = ''1''"
    by (simp add: string_of_nat.simps digit_def)
  have run: "createFromJsonToFSHandlerAsync sep_join never_rejects empty_disk ''report.csv''
         ''/out'' thousand_and_one_rows
       = (Returns
            \<lparr>content = ''Created '' @ dquote @ ''report.csv'' @ dquote @ '' file with 1001 rows'',
             structuredContent = Some \<lparr>fullPath = ''/out/report.csv'', fileRowCount = 1001\<rparr>,
             isError = None\<rparr>,
          \<lparr>files = [''/out/report.csv'' \<mapsto>
               \<lparr>csv_options = stringifier_options, csv_rows = thousand_and_one_rows\<rparr>],
           denied = Map.empty, write_failure = Map.empty, opened = [''/out/report.csv'']\<rparr>)"
    by (simp add: createFromJsonToFS_accepted [OF acc] n s sep_join_def empty_disk_def)
  have np: "\<not> partitioned_into_parts
       \<lparr>files = [''/out/report.csv'' \<mapsto>
               \<lparr>csv_options = stringifier_options, csv_rows = thousand_and_one_rows\<rparr>],
        denied = Map.empty, write_failure = Map.empty, opened = [''/out/report.csv'']\<rparr>
       ''/out/report'' thousand_and_one_rows"
    by (simp add: partitioned_into_parts_def n part_name_def one upt_rec)
  show ?thesis
    using np n by (simp add: run)
qed

text \<open>
  C1, amended.  Whatever the number of rows, \<open>create_fromjson_tofs\<close> opens exactly one
  stream, at \<open>join(path, filename)\<close>, and changes no file but that one; so does
  \<open>postgres_save_query_result\<close> for a query that returned rows.  Whenever the handler reports
  success, that one file holds every row in the original order, written under the header
  option, and the reported row count is the number of rows; it does report success when the
  stream opens, no write fails and the stringifier raises no error.  The handlers do not
  split a row set over 1000 rows into parts.
\<close>

theorem one_file_whatever_the_row_count:
  "opened (snd (createFromJsonToFSHandlerAsync join rejects fsys filename path contents))
     = opened fsys @ [join path filename]
   \<and> (other \<noteq> join path filename \<longrightarrow>
        files (snd (createFromJsonToFSHandlerAsync join rejects fsys filename path contents)) other
          = files fsys other)
   \<and> (fst (createFromJsonToFSHandlerAsync join rejects fsys filename path contents) = Returns r
        \<and> isError r = None \<longrightarrow>
        r = \<lparr>content = ''Created '' @ dquote @ filename @ dquote @ '' file with ''
                  @ string_of_nat (length contents) @ '' rows'',
             structuredContent =
               Some \<lparr>fullPath = join path filename, fileRowCount = length contents\<rparr>,
             isError = None\<rparr>
        \<and> files (snd (createFromJsonToFSHandlerAsync join rejects fsys filename path contents))
              (join path filename)
            = Some \<lparr>csv_options = stringifier_options, csv_rows = contents\<rparr>)
   \<and> (denied fsys (join path filename) = None \<and> write_failure fsys (join path filename) = None
        \<and> (\<forall>i<length contents. \<not> rejects (take i contents) (contents ! i)) \<longrightarrow>
        fst (createFromJsonToFSHandlerAsync join rejects fsys filename path contents)
          = Returns \<lparr>content = ''Created '' @ dquote @ filename @ dquote @ '' file with ''
                        @ string_of_nat (length contents) @ '' rows'',
                      structuredContent =
                        Some \<lparr>fullPath = join path filename, fileRowCount = length contents\<rparr>,
                      isError = None\<rparr>)
   \<and> (respond p (calls p) q (map of_json vals) = Returns (Some rs) \<and> rs \<noteq> [] \<longrightarrow>
        opened (snd (snd (saveQueryResultHandlerAsync join rejects p fsys q vals filename path)))
          = opened fsys @ [join path filename]
        \<and> (other \<noteq> join path filename \<longrightarrow>
             files (snd (snd (saveQueryResultHandlerAsync join rejects p fsys q vals filename path)))
                other
               = files fsys other)
        \<and> (fst (saveQueryResultHandlerAsync join rejects p fsys q vals filename path) = Returns r'
             \<and> isError r' = None \<longrightarrow>
             r' = \<lparr>content = ''Created '' @ dquote @ filename @ dquote @ '' file with ''
                       @ string_of_nat (length rs) @ '' rows'',
                   structuredContent =
                     Some \<lparr>fullPath = join path filename, fileRowCount = length rs\<rparr>,
                   isError = None\<rparr>
             \<and> files (snd (snd (saveQueryResultHandlerAsync join rejects p fsys q vals filename
                                   path))) (join path filename)
                 = Some \<lparr>csv_options = stringifier_options, csv_rows = rs\<rparr>)
        \<and> (denied fsys (join path filename) = None
             \<and> write_failure fsys (join path filename) = None
             \<and> (\<forall>i<length rs. \<not> rejects (take i rs) (rs ! i)) \<longrightarrow>
             fst (saveQueryResultHandlerAsync join rejects p fsys q vals filename path)
               = Returns \<lparr>content = ''Created '' @ dquote @ filename @ dquote @ '' file with ''
                             @ string_of_nat (length rs) @ '' rows'',
                           structuredContent =
                             Some \<lparr>fullPath = join path filename, fileRowCount = length rs\<rparr>,
                           isError = None\<rparr>))
   \<and> header stringifier_options"
proof (intro conjI impI)
  show "opened (snd (createFromJsonToFSHandlerAsync join rejects fsys filename path contents))
     = opened fsys @ [join path filename]"
    by (rule createFromJsonToFS_streams)
next
  assume "other \<noteq> join path filename"
  then show "files (snd (createFromJsonToFSHandlerAsync join rejects fsys filename path contents))
      other = files fsys other"
    by (rule createFromJsonToFS_other)
next
  assume a: "fst (createFromJsonToFSHandlerAsync join rejects fsys filename path contents)
      = Returns r \<and> isError r = None"
  from a have a1: "fst (createFromJsonToFSHandlerAsync join rejects fsys filename path contents)
      = Returns r" and a2: "isError r = None" by simp_all
  from createFromJsonToFS_success [OF a1 a2]
  show "r = \<lparr>content = ''Created '' @ dquote @ filename @ dquote @ '' file with ''
                  @ string_of_nat (length contents) @ '' rows'',
             structuredContent =
               Some \<lparr>fullPath = join path filename, fileRowCount = length contents\<rparr>,
             isError = None\<rparr>"
    and "files (snd (createFromJsonToFSHandlerAsync join rejects fsys filename path contents))
              (join path filename)
            = Some \<lparr>csv_options = stringifier_options, csv_rows = contents\<rparr>"
    by simp_all
next
  assume a: "denied fsys (join path filename) = None
      \<and> write_failure fsys (join path filename) = None
      \<and> (\<forall>i<length contents. \<not> rejects (take i contents) (contents ! i))"
  then have acc: "\<forall>i<length contents. \<not> rejects (take i contents) (contents ! i)" by simp
  show "fst (createFromJsonToFSHandlerAsync join rejects fsys filename path contents)
      = Returns \<lparr>content = ''Created '' @ dquote @ filename @ dquote @ '' file with ''
                    @ string_of_nat (length contents) @ '' rows'',
                  structuredContent =
                    Some \<lparr>fullPath = join path filename, fileRowCount = length contents\<rparr>,
                  isError = None\<rparr>"
    using a by (simp add: createFromJsonToFS_accepted [OF acc])
next
  assume h: "respond p (calls p) q (map of_json vals) = Returns (Some rs) \<and> rs \<noteq> []"
  then obtain r0 rs0 where rs: "rs = r0 # rs0" by (cases rs) auto
  show "opened (snd (snd (saveQueryResultHandlerAsync join rejects p fsys q vals filename path)))
      = opened fsys @ [join path filename]"
    using h by (simp add: saveQueryResult_streams rs)
next
  assume "respond p (calls p) q (map of_json vals) = Returns (Some rs) \<and> rs \<noteq> []"
    and "other \<noteq> join path filename"
  then show "files (snd (snd (saveQueryResultHandlerAsync join rejects p fsys q vals filename
      path))) other = files fsys other"
    by (simp add: saveQueryResult_other)
next
  assume h: "respond p (calls p) q (map of_json vals) = Returns (Some rs) \<and> rs \<noteq> []"
    and a: "fst (saveQueryResultHandlerAsync join rejects p fsys q vals filename path) = Returns r'
      \<and> isError r' = None"
  from h have h1: "respond p (calls p) q (map of_json vals) = Returns (Some rs)"
    and h2: "rs \<noteq> []" by simp_all
  from a have a1: "fst (createFromJsonToFSHandlerAsync join rejects fsys filename path rs)
      = Returns r'" and a2: "isError r' = None"
    by (simp_all add: saveQueryResult_writes [OF h1 h2])
  from createFromJsonToFS_success [OF a1 a2]
  show "r' = \<lparr>content = ''Created '' @ dquote @ filename @ dquote @ '' file with ''
                       @ string_of_nat (length rs) @ '' rows'',
                   structuredContent =
                     Some \<lparr>fullPath = join path filename, fileRowCount = length rs\<rparr>,
                   isError = None\<rparr>"
    and "files (snd (snd (saveQueryResultHandlerAsync join rejects p fsys q vals filename
                                   path))) (join path filename)
                 = Some \<lparr>csv_options = stringifier_options, csv_rows = rs\<rparr>"
    by (simp_all add: saveQueryResult_writes [OF h1 h2])
next
  assume h: "respond p (calls p) q (map of_json vals) = Returns (Some rs) \<and> rs \<noteq> []"
    and a: "denied fsys (join path filename) = None
      \<and> write_failure fsys (join path filename) = None
      \<and> (\<forall>i<length rs. \<not> rejects (take i rs) (rs ! i))"
  from h have h1: "respond p (calls p) q (map of_json vals) = Returns (Some rs)"
    and h2: "rs \<noteq> []" by simp_all
  from a have acc: "\<forall>i<length rs. \<not> rejects (take i rs) (rs ! i)" by simp
  show "fst (saveQueryResultHandlerAsync join rejects p fsys q vals filename path)
      = Returns \<lparr>content = ''Created '' @ dquote @ filename @ dquote @ '' file with ''
                    @ string_of_nat (length rs) @ '' rows'',
                  structuredContent =
                    Some \<lparr>fullPath = join path filename, fileRowCount = length rs\<rparr>,
                  isError = None\<rparr>"
    using a
    by (simp add: saveQueryResult_writes [OF h1 h2] createFromJsonToFS_accepted [OF acc])
next
  show "header stringifier_options" by (simp add: stringifier_options_def)
qed

theorem one_file_whatever_the_row_count_witness:
  "''/out/report.part1.csv'' \<noteq> sep_join ''/out'' ''report.csv''
   \<and> denied (empty_disk :: json_row fs) (sep_join ''/out'' ''report.csv'') = None
   \<and> write_failure (empty_disk :: json_row fs) (sep_join ''/out'' ''report.csv'') = None
   \<and> respond (scripted_pool [Returns (Some thousand_and_one_rows)])
        (calls (scripted_pool [Returns (Some thousand_and_one_rows)])) ''SELECT 1'' (map of_json [])
       = Returns (Some thousand_and_one_rows)
   \<and> thousand_and_one_rows \<noteq> []
   \<and> createFromJsonToFSHandlerAsync sep_join never_rejects empty_disk ''report.csv'' ''/out''
        thousand_and_one_rows
       = (Returns
            \<lparr>content = ''Created '' @ dquote @ ''report.csv'' @ dquote @ '' file with ''
                 @ string_of_nat (length thousand_and_one_rows) @ '' rows'',
             structuredContent =
               Some \<lparr>fullPath = ''/out/report.csv'',
                     fileRowCount = length thousand_and_one_rows\<rparr>,
             isError = None\<rparr>,
          \<lparr>files = [''/out/report.csv'' \<mapsto>
               \<lparr>csv_options = stringifier_options, csv_rows = thousand_and_one_rows\<rparr>],
           denied = Map.empty, write_failure = Map.empty, opened = [''/out/report.csv'']\<rparr>)
   \<and> saveQueryResultHandlerAsync sep_join never_rejects
        (scripted_pool [Returns (Some thousand_and_one_rows)]) empty_disk ''SELECT 1'' []
        ''report.csv'' ''/out''
       = (Returns
            \<lparr>content = ''Created '' @ dquote @ ''report.csv'' @ dquote @ '' file with ''
                 @ string_of_nat (length thousand_and_one_rows) @ '' rows'',
             structuredContent =
               Some \<lparr>fullPath = ''/out/report.csv'',
                     fileRowCount = length thousand_and_one_rows\<rparr>,
             isError = None\<rparr>,
          (scripted_pool [Returns (Some thousand_and_one_rows)])\<lparr>calls := 1\<rparr>,
          \<lparr>files = [''/out/report.csv'' \<mapsto>
               \<lparr>csv_options = stringifier_options, csv_rows = thousand_and_one_rows\<rparr>],
           denied = Map.empty, write_failure = Map.empty, opened = [''/out/report.csv'']\<rparr>)
   \<and> length thousand_and_one_rows = 1001"
proof -
  let ?p = "scripted_pool [Returns (Some thousand_and_one_rows)]"
  let ?C = "createFromJsonToFSHandlerAsync sep_join never_rejects (empty_disk :: json_row fs)
      ''report.csv'' ''/out'' thousand_and_one_rows"
  let ?S = "saveQueryResultHandlerAsync sep_join never_rejects ?p (empty_disk :: json_row fs)
      ''SELECT 1'' [] ''report.csv'' ''/out''"
  let ?ok = "\<lparr>content = ''Created '' @ dquote @ ''report.csv'' @ dquote @ '' file with ''
                 @ string_of_nat (length thousand_and_one_rows) @ '' rows'',
             structuredContent =
               Some \<lparr>fullPath = ''/out/report.csv'',
                     fileRowCount = length thousand_and_one_rows\<rparr>,
             isError = None\<rparr>"
  have j: "sep_join ''/out'' ''report.csv'' = ''/out/report.csv''"
    by (simp add: sep_join_def)
  have d: "denied (empty_disk :: json_row fs) ''/out/report.csv'' = None"
    and w: "write_failure (empty_disk :: json_row fs) ''/out/report.csv'' = None"
    and f: "files (empty_disk :: json_row fs) = Map.empty"
    and o: "opened (empty_disk :: json_row fs) = []"
    by (simp_all add: empty_disk_def)
  have h: "respond ?p (calls ?p) ''SELECT 1'' (map of_json []) = Returns (Some thousand_and_one_rows)"
    by (simp add: scripted_pool_def)
  have n: "length thousand_and_one_rows = 1001"
    by (simp add: thousand_and_one_rows_def)
  have ne: "thousand_and_one_rows \<noteq> []"
    using n by auto
  have acc: "\<forall>i<length thousand_and_one_rows.
      \<not> never_rejects (take i thousand_and_one_rows) (thousand_and_one_rows ! i)"
    by (simp add: never_rejects_def)
  have c: "calls ?p = 0" by (simp add: scripted_pool_def)
  note T = one_file_whatever_the_row_count [where join = sep_join and rejects = never_rejects
      and fsys = "empty_disk :: json_row fs" and filename = "''report.csv''" and path = "''/out''"
      and contents = thousand_and_one_rows and other = "''/out/report.part1.csv''"
      and r = ?ok and r' = ?ok and p = ?p and q = "''SELECT 1''" and vals = "[]"
      and rs = thousand_and_one_rows, unfolded j]
  have c1: "fst ?C = Returns ?ok" using T d w acc by blast
  have s1: "fst ?S = Returns ?ok" using T d w acc h ne by blast
  have cfs: "snd ?C = \<lparr>files = [''/out/report.csv'' \<mapsto>
               \<lparr>csv_options = stringifier_options, csv_rows = thousand_and_one_rows\<rparr>],
           denied = Map.empty, write_failure = Map.empty, opened = [''/out/report.csv'']\<rparr>"
    by (simp add: createFromJsonToFS_accepted [OF acc] j d w empty_disk_def)
  have sfs: "snd ?S = (?p\<lparr>calls := 1\<rparr>, snd ?C)"
    using saveQueryResult_writes [OF h ne, of sep_join never_rejects empty_disk
        "''report.csv''" "''/out''"]
    by (simp add: c)
  show ?thesis
    using c1 s1 cfs sfs d w h ne n by (simp add: j prod_eq_iff)
qed

section \<open>Empty results\<close>

text \<open>
  C4. A query execution that returns zero rows is a success and not an error: \<open>query\<close>
  and \<open>postgres_run_query\<close> return \<open>rowCount = 0\<close> with \<open>rows = []\<close> and no error flag,
  and \<open>postgres_save_query_result\<close> returns success with \<open>rowCount = 0\<close>, opens no stream
  and leaves the file system as it was.
\<close>

theorem zero_rows_is_success:
  assumes "respond p (calls p) q (map of_json vals) = Returns rs" and "rows_or_empty rs = []"
  shows "queryHandlerAsync p q vals =
           (Returns \<lparr>content = ''No result found'',
                     structuredContent = Some \<lparr>rowCount = 0, rows = []\<rparr>, isError = None\<rparr>,
            p\<lparr>calls := calls p + 1\<rparr>)
       \<and> runQueryHandlerAsync p q vals =
           (Returns \<lparr>content = ''No result found'',
                     structuredContent = Some \<lparr>rowCount = 0, rows = []\<rparr>, isError = None\<rparr>,
            p\<lparr>calls := calls p + 1\<rparr>)
       \<and> saveQueryResultHandlerAsync join rejects p fsys q vals filename path =
           (Returns \<lparr>content = ''No CSV file generated because no result was found'',
                     structuredContent = Some \<lparr>fullPath = '''', fileRowCount = 0\<rparr>,
                     isError = None\<rparr>,
            p\<lparr>calls := calls p + 1\<rparr>, fsys)"
  using queryHandler_no_rows [OF assms] runQueryHandler_no_rows [OF assms]
    saveQueryResult_no_rows [OF assms]
  by simp

theorem zero_rows_is_success_witness:
  "respond (scripted_pool [Returns (Some ([] :: json_row list))])
       (calls (scripted_pool [Returns (Some ([] :: json_row list))])) ''SELECT 1 WHERE false''
       (map of_json [])
     = Returns (Some [])
   \<and> rows_or_empty (Some ([] :: json_row list)) = []
   \<and> fst (queryHandlerAsync (scripted_pool [Returns (Some ([] :: json_row list))])
           ''SELECT 1 WHERE false'' [])
       = Returns \<lparr>content = ''No result found'',
                   structuredContent = Some \<lparr>rowCount = 0, rows = []\<rparr>, isError = None\<rparr>
   \<and> fst (runQueryHandlerAsync (scripted_pool [Returns (Some ([] :: json_row list))])
           ''SELECT 1 WHERE false'' [])
       = Returns \<lparr>content = ''No result found'',
                   structuredContent = Some \<lparr>rowCount = 0, rows = []\<rparr>, isError = None\<rparr>
   \<and> fst (saveQueryResultHandlerAsync sep_join never_rejects
           (scripted_pool [Returns (Some ([] :: json_row list))])
           empty_disk ''SELECT 1 WHERE false'' [] ''report.csv'' ''/out'')
       = Returns \<lparr>content = ''No CSV file generated because no result was found'',
                   structuredContent = Some \<lparr>fullPath = '''', fileRowCount = 0\<rparr>,
                   isError = None\<rparr>
   \<and> snd (snd (saveQueryResultHandlerAsync sep_join never_rejects
           (scripted_pool [Returns (Some ([] :: json_row list))])
           empty_disk ''SELECT 1 WHERE false'' [] ''report.csv'' ''/out''))
       = empty_disk"
proof -
  let ?p = "scripted_pool [Returns (Some ([] :: json_row list))]"
  have h1: "respond ?p (calls ?p) ''SELECT 1 WHERE false'' (map of_json []) = Returns (Some [])"
    by (simp add: scripted_pool_def)
  have h2: "rows_or_empty (Some ([] :: json_row list)) = []"
    by (simp add: rows_or_empty_def)
  show ?thesis
    using h1 h2
      zero_rows_is_success [OF h1 h2, where join = sep_join and rejects = never_rejects
        and fsys = empty_disk and filename = "''report.csv''" and path = "''/out''"]
    by simp
qed

text \<open>
  C10. Given an empty row array, \<open>create_fromjson_tofs\<close> resolves as a success with no
  error flag and \<open>rowCount = 0\<close>, and the file at \<open>join(path, filename)\<close> is created all
  the same (provided the stream can be opened there), whereas
  \<open>postgres_save_query_result\<close> creates no file when its query returns zero rows.
\<close>

theorem empty_contents_still_creates_file:
  assumes "denied fsys (join path filename) = None"
  shows "fst (createFromJsonToFSHandlerAsync join rejects fsys filename path [])
           = Returns
               \<lparr>content = ''Created '' @ dquote @ filename @ dquote @ '' file with 0 rows'',
                structuredContent = Some \<lparr>fullPath = join path filename, fileRowCount = 0\<rparr>,
                isError = None\<rparr>
       \<and> files (snd (createFromJsonToFSHandlerAsync join rejects fsys filename path []))
             (join path filename)
           = Some \<lparr>csv_options = stringifier_options, csv_rows = []\<rparr>
       \<and> (respond p (calls p) q (map of_json vals) = Returns rs \<and> rows_or_empty rs = [] \<longrightarrow>
            files (snd (snd (saveQueryResultHandlerAsync join rejects p fsys q vals filename path)))
              = files fsys
          \<and> opened (snd (snd (saveQueryResultHandlerAsync join rejects p fsys q vals filename
                                 path)))
              = opened fsys)"
proof -
  have zero: "string_of_nat 0 = ''0''"
    by (simp add: string_of_nat.simps digit_def)
  have acc: "\<forall>i<length ([] :: 'a list). \<not> rejects (take i []) ([] ! i)" by simp
  show ?thesis
    using assms
    by (auto simp: createFromJsonToFS_accepted [OF acc] zero saveQueryResult_no_rows
        split: option.splits)
qed

theorem empty_contents_still_creates_file_witness:
  "denied (empty_disk :: json_row fs) (sep_join ''/out'' ''empty.csv'') = None
   \<and> respond (scripted_pool [Returns (Some ([] :: json_row list))])
       (calls (scripted_pool [Returns (Some ([] :: json_row list))])) ''SELECT 1 WHERE false''
       (map of_json [])
     = Returns (Some [])
   \<and> rows_or_empty (Some ([] :: json_row list)) = []
   \<and> fst (createFromJsonToFSHandlerAsync sep_join never_rejects (empty_disk :: json_row fs)
           ''empty.csv'' ''/out'' [])
       = Returns
           \<lparr>content = ''Created '' @ dquote @ ''empty.csv'' @ dquote @ '' file with 0 rows'',
            structuredContent = Some \<lparr>fullPath = ''/out/empty.csv'', fileRowCount = 0\<rparr>,
            isError = None\<rparr>
   \<and> files (snd (createFromJsonToFSHandlerAsync sep_join never_rejects
                  (empty_disk :: json_row fs) ''empty.csv'' ''/out'' []))
         ''/out/empty.csv''
       = Some \<lparr>csv_options = stringifier_options, csv_rows = []\<rparr>
   \<and> files (snd (snd (saveQueryResultHandlerAsync sep_join never_rejects
         (scripted_pool [Returns (Some ([] :: json_row list))]) empty_disk
         ''SELECT 1 WHERE false'' [] ''empty.csv'' ''/out''))) ''/out/empty.csv'' = None"
proof -
  let ?p = "scripted_pool [Returns (Some ([] :: json_row list))]"
  have h0: "denied (empty_disk :: json_row fs) (sep_join ''/out'' ''empty.csv'') = None"
    by (simp add: empty_disk_def)
  have h1: "respond ?p (calls ?p) ''SELECT 1 WHERE false'' (map of_json []) = Returns (Some [])"
    by (simp add: scripted_pool_def)
  have h2: "rows_or_empty (Some ([] :: json_row list)) = []"
    by (simp add: rows_or_empty_def)
  have j: "sep_join ''/out'' ''empty.csv'' = ''/out/empty.csv''"
    by (simp add: sep_join_def)
  have e: "files (empty_disk :: json_row fs) ''/out/empty.csv'' = None"
    by (simp add: empty_disk_def)
  show ?thesis
    using h0 h1 h2 e
      empty_contents_still_creates_file [where join = sep_join and path = "''/out''"
        and rejects = never_rejects
        and fsys = "empty_disk :: json_row fs" and filename = "''empty.csv''" and p = ?p
        and q = "''SELECT 1 WHERE false''" and vals = "[]" and rs = "Some []"]
    by (simp add: j)
qed

section \<open>Retries\<close>

text \<open>
  C6, as the claim states it, fails: against a pool whose first answer is a permission
  error and whose second answer would be another error, \<open>query\<close> calls the pool once and
  surfaces the first message.  There is no second attempt, and the message surfaced is not
  the one a retry would have met.
\<close>

theorem failed_query_is_not_retried:
  "queryHandlerAsync failing_pool ''SELECT 1'' []
     = (Returns
          \<lparr>content = ''Error querying database: error: permission denied for table Series'',
           structuredContent = None, isError = Some True\<rparr>,
        failing_pool\<lparr>calls := 1\<rparr>)
   \<and> respond failing_pool 1 ''SELECT 1'' []
     = Throws (Thrown ''error: relation Serie does not exist'' None)"
  by (simp add: queryHandlerAsync_def queryAsync_def pool_query_def try_catch_def
      JSON_stringify_values_throws_def JSON_stringify_throws_def
      failing_pool_def scripted_pool_def)

text \<open>
  C6, amended.  No handler retries.  \<open>query\<close> and \<open>postgres_save_query_result\<close> execute
  the statement exactly once per call, and a failed execution is surfaced at once as an
  error result with the message of that one attempt (the value thrown being one that
  \<^verbatim>\<open>JSON.stringify\<close> accepts for the log).  \<open>create_fromjson_tofs\<close> opens exactly one
  stream per call, \<open>postgres_save_query_result\<close> one when its query returned rows and none
  otherwise; a stream that cannot be opened, or on which a later write fails, is surfaced at
  once as an error result with its message, in both handlers (the stringifier raising no
  error).
\<close>

theorem handlers_attempt_once:
  "snd (queryHandlerAsync p q vals) = p\<lparr>calls := calls p + 1\<rparr>
   \<and> fst (snd (saveQueryResultHandlerAsync join rejects p fsys q vals filename path))
       = p\<lparr>calls := calls p + 1\<rparr>
   \<and> opened (snd (snd (saveQueryResultHandlerAsync join rejects p fsys q vals filename path)))
       = (case respond p (calls p) q (map of_json vals) of
            Returns (Some (r # rs')) \<Rightarrow> opened fsys @ [join path filename]
          | _ \<Rightarrow> opened fsys)
   \<and> opened (snd (createFromJsonToFSHandlerAsync join rejects fsys filename path contents))
       = opened fsys @ [join path filename]
   \<and> (respond pf (calls pf) q (map of_json vals) = Throws err \<and> json_failure err = None \<longrightarrow>
        queryHandlerAsync pf q vals
          = (Returns \<lparr>content = ''Error querying database: '' @ rendering err,
                       structuredContent = None, isError = Some True\<rparr>,
             pf\<lparr>calls := calls pf + 1\<rparr>)
      \<and> saveQueryResultHandlerAsync join rejects pf fsys q vals filename path
          = (Returns \<lparr>content = ''Error querying database: '' @ rendering err,
                       structuredContent = None, isError = Some True\<rparr>,
             pf\<lparr>calls := calls pf + 1\<rparr>, fsys))
   \<and> (denied fd (join path filename) = Some e
        \<and> (\<forall>i<length contents. \<not> rejects (take i contents) (contents ! i)) \<longrightarrow>
        createFromJsonToFSHandlerAsync join rejects fd filename path contents
          = (Returns \<lparr>content = ''Error creating file: '' @ e, structuredContent = None,
                       isError = Some True\<rparr>,
             fd\<lparr>opened := opened fd @ [join path filename]\<rparr>))
   \<and> (respond ps (calls ps) q (map of_json vals) = Returns (Some rs) \<and> rs \<noteq> []
        \<and> (\<forall>i<length rs. \<not> rejects (take i rs) (rs ! i))
        \<and> denied fd (join path filename) = Some e \<longrightarrow>
        saveQueryResultHandlerAsync join rejects ps fd q vals filename path
          = (Returns \<lparr>content = ''Error creating file: '' @ e, structuredContent = None,
                       isError = Some True\<rparr>,
             ps\<lparr>calls := calls ps + 1\<rparr>,
             fd\<lparr>opened := opened fd @ [join path filename]\<rparr>))
   \<and> (denied fw (join path filename) = None
        \<and> write_failure fw (join path filename) = Some (k, msg) \<and> k < length contents
        \<and> (\<forall>i<length contents. \<not> rejects (take i contents) (contents ! i)) \<longrightarrow>
        fst (createFromJsonToFSHandlerAsync join rejects fw filename path contents)
          = Returns \<lparr>content = ''Error creating file: '' @ msg, structuredContent = None,
                      isError = Some True\<rparr>)
   \<and> (respond ps (calls ps) q (map of_json vals) = Returns (Some rs) \<and> rs \<noteq> []
        \<and> (\<forall>i<length rs. \<not> rejects (take i rs) (rs ! i))
        \<and> denied fw (join path filename) = None
        \<and> write_failure fw (join path filename) = Some (k, msg) \<and> k < length rs \<longrightarrow>
        fst (saveQueryResultHandlerAsync join rejects ps fw q vals filename path)
          = Returns \<lparr>content = ''Error creating file: '' @ msg, structuredContent = None,
                      isError = Some True\<rparr>)"
proof (intro conjI impI)
  show "snd (queryHandlerAsync p q vals) = p\<lparr>calls := calls p + 1\<rparr>"
    by (rule queryHandler_pool)
next
  show "fst (snd (saveQueryResultHandlerAsync join rejects p fsys q vals filename path))
       = p\<lparr>calls := calls p + 1\<rparr>"
    by (rule saveQueryResult_pool)
next
  show "opened (snd (snd (saveQueryResultHandlerAsync join rejects p fsys q vals filename path)))
       = (case respond p (calls p) q (map of_json vals) of
            Returns (Some (r # rs')) \<Rightarrow> opened fsys @ [join path filename]
          | _ \<Rightarrow> opened fsys)"
    by (rule saveQueryResult_streams)
next
  show "opened (snd (createFromJsonToFSHandlerAsync join rejects fsys filename path contents))
       = opened fsys @ [join path filename]"
    by (rule createFromJsonToFS_streams)
next
  assume a: "respond pf (calls pf) q (map of_json vals) = Throws err \<and> json_failure err = None"
  then have a1: "respond pf (calls pf) q (map of_json vals) = Throws err"
    and a2: "json_failure err = None" by simp_all
  show "queryHandlerAsync pf q vals
          = (Returns \<lparr>content = ''Error querying database: '' @ rendering err,
                       structuredContent = None, isError = Some True\<rparr>,
             pf\<lparr>calls := calls pf + 1\<rparr>)"
    by (rule queryHandler_rejected [OF a1 a2])
  show "saveQueryResultHandlerAsync join rejects pf fsys q vals filename path
          = (Returns \<lparr>content = ''Error querying database: '' @ rendering err,
                       structuredContent = None, isError = Some True\<rparr>,
             pf\<lparr>calls := calls pf + 1\<rparr>, fsys)"
    by (rule saveQueryResult_rejected [OF a1 a2])
next
  assume a: "denied fd (join path filename) = Some e
        \<and> (\<forall>i<length contents. \<not> rejects (take i contents) (contents ! i))"
  then have acc: "\<forall>i<length contents. \<not> rejects (take i contents) (contents ! i)" by simp
  show "createFromJsonToFSHandlerAsync join rejects fd filename path contents
          = (Returns \<lparr>content = ''Error creating file: '' @ e, structuredContent = None,
                       isError = Some True\<rparr>,
             fd\<lparr>opened := opened fd @ [join path filename]\<rparr>)"
    using a by (simp add: createFromJsonToFS_accepted [OF acc])
next
  assume a: "respond ps (calls ps) q (map of_json vals) = Returns (Some rs) \<and> rs \<noteq> []
        \<and> (\<forall>i<length rs. \<not> rejects (take i rs) (rs ! i))
        \<and> denied fd (join path filename) = Some e"
  then have h1: "respond ps (calls ps) q (map of_json vals) = Returns (Some rs)"
    and h2: "rs \<noteq> []" and acc: "\<forall>i<length rs. \<not> rejects (take i rs) (rs ! i)"
    and d: "denied fd (join path filename) = Some e" by simp_all
  show "saveQueryResultHandlerAsync join rejects ps fd q vals filename path
          = (Returns \<lparr>content = ''Error creating file: '' @ e, structuredContent = None,
                       isError = Some True\<rparr>,
             ps\<lparr>calls := calls ps + 1\<rparr>,
             fd\<lparr>opened := opened fd @ [join path filename]\<rparr>)"
    using d by (simp add: saveQueryResult_writes [OF h1 h2] createFromJsonToFS_accepted [OF acc])
next
  assume a: "denied fw (join path filename) = None
        \<and> write_failure fw (join path filename) = Some (k, msg) \<and> k < length contents
        \<and> (\<forall>i<length contents. \<not> rejects (take i contents) (contents ! i))"
  then have acc: "\<forall>i<length contents. \<not> rejects (take i contents) (contents ! i)" by simp
  show "fst (createFromJsonToFSHandlerAsync join rejects fw filename path contents)
          = Returns \<lparr>content = ''Error creating file: '' @ msg, structuredContent = None,
                      isError = Some True\<rparr>"
    using a by (simp add: createFromJsonToFS_accepted [OF acc])
next
  assume a: "respond ps (calls ps) q (map of_json vals) = Returns (Some rs) \<and> rs \<noteq> []
        \<and> (\<forall>i<length rs. \<not> rejects (take i rs) (rs ! i))
        \<and> denied fw (join path filename) = None
        \<and> write_failure fw (join path filename) = Some (k, msg) \<and> k < length rs"
  then have h1: "respond ps (calls ps) q (map of_json vals) = Returns (Some rs)"
    and h2: "rs \<noteq> []" and acc: "\<forall>i<length rs. \<not> rejects (take i rs) (rs ! i)"
    by simp_all
  show "fst (saveQueryResultHandlerAsync join rejects ps fw q vals filename path)
          = Returns \<lparr>content = ''Error creating file: '' @ msg, structuredContent = None,
                      isError = Some True\<rparr>"
    using a by (simp add: saveQueryResult_writes [OF h1 h2] createFromJsonToFS_accepted [OF acc])
qed

theorem handlers_attempt_once_witness:
  "respond failing_pool (calls failing_pool) ''SELECT 1'' (map of_json [])
     = Throws (Thrown ''error: permission denied for table Series'' None)
   \<and> respond (scripted_pool [Returns (Some [sample_row, other_row])])
       (calls (scripted_pool [Returns (Some [sample_row, other_row])])) ''SELECT 1''
       (map of_json [])
     = Returns (Some [sample_row, other_row])
   \<and> denied (readonly_disk :: json_row fs) (sep_join ''/out'' ''report.csv'')
     = Some ''EACCES: permission denied''
   \<and> write_failure (full_disk :: json_row fs) (sep_join ''/out'' ''report.csv'')
     = Some (1, ''ENOSPC: no space left on device'')
   \<and> queryHandlerAsync failing_pool ''SELECT 1'' []
       = (Returns
            \<lparr>content = ''Error querying database: error: permission denied for table Series'',
             structuredContent = None, isError = Some True\<rparr>,
          failing_pool\<lparr>calls := 1\<rparr>)
   \<and> saveQueryResultHandlerAsync sep_join never_rejects failing_pool empty_disk ''SELECT 1'' []
         ''report.csv'' ''/out''
       = (Returns
            \<lparr>content = ''Error querying database: error: permission denied for table Series'',
             structuredContent = None, isError = Some True\<rparr>,
          failing_pool\<lparr>calls := 1\<rparr>, empty_disk)
   \<and> createFromJsonToFSHandlerAsync sep_join never_rejects readonly_disk ''report.csv'' ''/out''
         [sample_row, other_row]
       = (Returns \<lparr>content = ''Error creating file: EACCES: permission denied'',
                    structuredContent = None, isError = Some True\<rparr>,
          readonly_disk\<lparr>opened := [''/out/report.csv'']\<rparr>)
   \<and> saveQueryResultHandlerAsync sep_join never_rejects
         (scripted_pool [Returns (Some [sample_row, other_row])]) readonly_disk ''SELECT 1'' []
         ''report.csv'' ''/out''
       = (Returns \<lparr>content = ''Error creating file: EACCES: permission denied'',
                    structuredContent = None, isError = Some True\<rparr>,
          (scripted_pool [Returns (Some [sample_row, other_row])])\<lparr>calls := 1\<rparr>,
          readonly_disk\<lparr>opened := [''/out/report.csv'']\<rparr>)
   \<and> fst (createFromJsonToFSHandlerAsync sep_join never_rejects full_disk ''report.csv'' ''/out''
         [sample_row, other_row])
       = Returns \<lparr>content = ''Error creating file: ENOSPC: no space left on device'',
                   structuredContent = None, isError = Some True\<rparr>
   \<and> fst (saveQueryResultHandlerAsync sep_join never_rejects
         (scripted_pool [Returns (Some [sample_row, other_row])]) full_disk ''SELECT 1'' []
         ''report.csv'' ''/out'')
       = Returns \<lparr>content = ''Error creating file: ENOSPC: no space left on device'',
                   structuredContent = None, isError = Some True\<rparr>"
proof -
  let ?ps = "scripted_pool [Returns (Some [sample_row, other_row])]"
  let ?err = "Thrown ''error: permission denied for table Series'' None"
  have hf: "respond failing_pool (calls failing_pool) ''SELECT 1'' (map of_json []) = Throws ?err"
    by (simp add: failing_pool_def scripted_pool_def)
  have hs: "respond ?ps (calls ?ps) ''SELECT 1'' (map of_json [])
      = Returns (Some [sample_row, other_row])"
    by (simp add: scripted_pool_def)
  have d: "denied (readonly_disk :: json_row fs) (sep_join ''/out'' ''report.csv'')
      = Some ''EACCES: permission denied''"
    by (simp add: readonly_disk_def)
  have dn: "denied (full_disk :: json_row fs) (sep_join ''/out'' ''report.csv'') = None"
    by (simp add: full_disk_def)
  have w: "write_failure (full_disk :: json_row fs) (sep_join ''/out'' ''report.csv'')
      = Some (1, ''ENOSPC: no space left on device'')"
    by (simp add: full_disk_def)
  have acc: "\<forall>i<length [sample_row, other_row].
      \<not> never_rejects (take i [sample_row, other_row]) ([sample_row, other_row] ! i)"
    by (simp add: never_rejects_def)
  have cf: "calls failing_pool = 0" by (simp add: failing_pool_def scripted_pool_def)
  have cs: "calls ?ps = 0" by (simp add: scripted_pool_def)
  have o: "opened (readonly_disk :: json_row fs) = []" by (simp add: readonly_disk_def)
  have j: "sep_join ''/out'' ''report.csv'' = ''/out/report.csv''" by (simp add: sep_join_def)
  note T = handlers_attempt_once [where p = failing_pool and q = "''SELECT 1''" and vals = "[]"
      and join = sep_join and rejects = never_rejects and fsys = "empty_disk :: json_row fs"
      and filename = "''report.csv''" and path = "''/out''"
      and contents = "[sample_row, other_row]" and pf = failing_pool and err = ?err
      and fd = "readonly_disk :: json_row fs" and e = "''EACCES: permission denied''"
      and ps = ?ps and rs = "[sample_row, other_row]"
      and fw = "full_disk :: json_row fs" and k = 1
      and msg = "''ENOSPC: no space left on device''"]
  have t5: "queryHandlerAsync failing_pool ''SELECT 1'' []
          = (Returns \<lparr>content = ''Error querying database: '' @ rendering ?err,
                       structuredContent = None, isError = Some True\<rparr>,
             failing_pool\<lparr>calls := calls failing_pool + 1\<rparr>)"
    and t5': "saveQueryResultHandlerAsync sep_join never_rejects failing_pool
          (empty_disk :: json_row fs) ''SELECT 1'' [] ''report.csv'' ''/out''
          = (Returns \<lparr>content = ''Error querying database: '' @ rendering ?err,
                       structuredContent = None, isError = Some True\<rparr>,
             failing_pool\<lparr>calls := calls failing_pool + 1\<rparr>, empty_disk)"
    using T hf by simp_all
  have t6: "createFromJsonToFSHandlerAsync sep_join never_rejects (readonly_disk :: json_row fs)
          ''report.csv'' ''/out'' [sample_row, other_row]
          = (Returns \<lparr>content = ''Error creating file: '' @ ''EACCES: permission denied'',
                       structuredContent = None, isError = Some True\<rparr>,
             readonly_disk\<lparr>opened := opened (readonly_disk :: json_row fs) @ [sep_join ''/out'' ''report.csv'']\<rparr>)"
    using T d by (simp add: never_rejects_def)
  have t7: "saveQueryResultHandlerAsync sep_join never_rejects ?ps (readonly_disk :: json_row fs)
          ''SELECT 1'' [] ''report.csv'' ''/out''
          = (Returns \<lparr>content = ''Error creating file: '' @ ''EACCES: permission denied'',
                       structuredContent = None, isError = Some True\<rparr>,
             ?ps\<lparr>calls := calls ?ps + 1\<rparr>,
             readonly_disk\<lparr>opened := opened (readonly_disk :: json_row fs) @ [sep_join ''/out'' ''report.csv'']\<rparr>)"
    using T hs d by (simp add: never_rejects_def)
  have t8: "fst (createFromJsonToFSHandlerAsync sep_join never_rejects (full_disk :: json_row fs)
          ''report.csv'' ''/out'' [sample_row, other_row])
          = Returns \<lparr>content = ''Error creating file: '' @ ''ENOSPC: no space left on device'',
                      structuredContent = None, isError = Some True\<rparr>"
    using T dn w by (simp add: never_rejects_def)
  have t9: "fst (saveQueryResultHandlerAsync sep_join never_rejects ?ps (full_disk :: json_row fs)
          ''SELECT 1'' [] ''report.csv'' ''/out'')
          = Returns \<lparr>content = ''Error creating file: '' @ ''ENOSPC: no space left on device'',
                      structuredContent = None, isError = Some True\<rparr>"
    using T hs dn w by (simp add: never_rejects_def)
  show ?thesis
    using hf hs d w t5 t5' t6 t7 t8 t9 by (simp add: cf cs o j)
qed

section \<open>The output path\<close>

text \<open>
  C7, as the claim states it, fails: with \<open>/out\<close> as the output root, a call whose
  directory is \<open>/etc\<close> is not rejected; the file \<open>/etc/report.csv\<close> is written.
\<close>

theorem file_written_outside_root:
  "\<not> under_root ''/out'' ''/etc''
   \<and> \<not> under_root ''/out'' ''/etc/report.csv''
   \<and> createFromJsonToFSHandlerAsync sep_join never_rejects empty_disk ''report.csv'' ''/etc''
        [sample_row]
       = (Returns
            \<lparr>content = ''Created '' @ dquote @ ''report.csv'' @ dquote @ '' file with 1 rows'',
             structuredContent = Some \<lparr>fullPath = ''/etc/report.csv'', fileRowCount = 1\<rparr>,
             isError = None\<rparr>,
          \<lparr>files = [''/etc/report.csv'' \<mapsto>
               \<lparr>csv_options = stringifier_options, csv_rows = [sample_row]\<rparr>],
           denied = Map.empty, write_failure = Map.empty, opened = [''/etc/report.csv'']\<rparr>)"
  by (simp add: under_root_def createFromJsonToFSHandlerAsync_def createWriteStream_def
      pipe_and_end_def landed_def stringify_def stringifier_write_def never_rejects_def
      sep_join_def empty_disk_def Let_def string_of_nat.simps digit_def)

lemma saveQueryResult_accepted:
  assumes "respond p (calls p) q (map of_json vals) = Returns (Some rs)" and "rs \<noteq> []"
    and "\<forall>i<length rs. \<not> rejects (take i rs) (rs ! i)"
  shows "saveQueryResultHandlerAsync join rejects p fsys q vals filename path =
     (case denied fsys (join path filename) of
        Some err \<Rightarrow>
          (Returns \<lparr>content = ''Error creating file: '' @ err, structuredContent = None,
                    isError = Some True\<rparr>,
           p\<lparr>calls := calls p + 1\<rparr>,
           fsys\<lparr>opened := opened fsys @ [join path filename]\<rparr>)
      | None \<Rightarrow>
          (case write_failure fsys (join path filename) of
             Some (k, msg) \<Rightarrow>
               if k < length rs then
                 (Returns \<lparr>content = ''Error creating file: '' @ msg, structuredContent = None,
                           isError = Some True\<rparr>,
                  p\<lparr>calls := calls p + 1\<rparr>,
                  fsys\<lparr>files := (files fsys)(join path filename \<mapsto>
                           \<lparr>csv_options = stringifier_options, csv_rows = take k rs\<rparr>),
                       opened := opened fsys @ [join path filename]\<rparr>)
               else
                 (Returns \<lparr>content = ''Created '' @ dquote @ filename @ dquote
                             @ '' file with '' @ string_of_nat (length rs) @ '' rows'',
                           structuredContent =
                             Some \<lparr>fullPath = join path filename, fileRowCount = length rs\<rparr>,
                           isError = None\<rparr>,
                  p\<lparr>calls := calls p + 1\<rparr>,
                  fsys\<lparr>files := (files fsys)(join path filename \<mapsto>
                           \<lparr>csv_options = stringifier_options, csv_rows = rs\<rparr>),
                       opened := opened fsys @ [join path filename]\<rparr>)
           | None \<Rightarrow>
               (Returns \<lparr>content = ''Created '' @ dquote @ filename @ dquote
                           @ '' file with '' @ string_of_nat (length rs) @ '' rows'',
                         structuredContent =
                           Some \<lparr>fullPath = join path filename, fileRowCount = length rs\<rparr>,
                         isError = None\<rparr>,
                p\<lparr>calls := calls p + 1\<rparr>,
                fsys\<lparr>files := (files fsys)(join path filename \<mapsto>
                         \<lparr>csv_options = stringifier_options, csv_rows = rs\<rparr>),
                     opened := opened fsys @ [join path filename]\<rparr>)))"
  by (simp add: saveQueryResult_writes [OF assms(1,2)] createFromJsonToFS_accepted [OF assms(3)]
      split: option.splits)

text \<open>
  C7, amended.  The file-producing handlers hand \<open>join(path, filename)\<close> to
  \<open>createWriteStream\<close> for whatever path the caller supplies, and compare it with no
  output root: \<open>create_fromjson_tofs\<close> on every call, \<open>postgres_save_query_result\<close> whenever
  its query returned rows.  With a stringifier that raises no error, what the call does from
  there is decided by the stream alone.  When the stream cannot be opened at that path, the
  call reports the stream's message and no file is written; when it opens, the file at
  \<open>join(path, filename)\<close> is written, wholly with a success result, or up to the failing
  write with that write's message.
\<close>

theorem output_path_is_unchecked:
  "((\<forall>i<length contents. \<not> rejects (take i contents) (contents ! i)) \<longrightarrow>
      createFromJsonToFSHandlerAsync join rejects fsys filename path contents =
        (case denied fsys (join path filename) of
           Some err \<Rightarrow>
             (Returns \<lparr>content = ''Error creating file: '' @ err, structuredContent = None,
                       isError = Some True\<rparr>,
              fsys\<lparr>opened := opened fsys @ [join path filename]\<rparr>)
         | None \<Rightarrow>
             (case write_failure fsys (join path filename) of
                Some (k, msg) \<Rightarrow>
                  if k < length contents then
                    (Returns \<lparr>content = ''Error creating file: '' @ msg,
                              structuredContent = None, isError = Some True\<rparr>,
                     fsys\<lparr>files := (files fsys)(join path filename \<mapsto>
                              \<lparr>csv_options = stringifier_options,
                               csv_rows = take k contents\<rparr>),
                          opened := opened fsys @ [join path filename]\<rparr>)
                  else
                    (Returns \<lparr>content = ''Created '' @ dquote @ filename @ dquote
                                @ '' file with '' @ string_of_nat (length contents) @ '' rows'',
                              structuredContent =
                                Some \<lparr>fullPath = join path filename,
                                      fileRowCount = length contents\<rparr>,
                              isError = None\<rparr>,
                     fsys\<lparr>files := (files fsys)(join path filename \<mapsto>
                              \<lparr>csv_options = stringifier_options, csv_rows = contents\<rparr>),
                          opened := opened fsys @ [join path filename]\<rparr>)
              | None \<Rightarrow>
                  (Returns \<lparr>content = ''Created '' @ dquote @ filename @ dquote
                              @ '' file with '' @ string_of_nat (length contents) @ '' rows'',
                            structuredContent =
                              Some \<lparr>fullPath = join path filename,
                                    fileRowCount = length contents\<rparr>,
                            isError = None\<rparr>,
                   fsys\<lparr>files := (files fsys)(join path filename \<mapsto>
                            \<lparr>csv_options = stringifier_options, csv_rows = contents\<rparr>),
                        opened := opened fsys @ [join path filename]\<rparr>))))
   \<and> (respond p (calls p) q (map of_json vals) = Returns (Some rs) \<and> rs \<noteq> []
        \<and> (\<forall>i<length rs. \<not> rejects (take i rs) (rs ! i)) \<longrightarrow>
      saveQueryResultHandlerAsync join rejects p fsys q vals filename path =
        (case denied fsys (join path filename) of
           Some err \<Rightarrow>
             (Returns \<lparr>content = ''Error creating file: '' @ err, structuredContent = None,
                       isError = Some True\<rparr>,
              p\<lparr>calls := calls p + 1\<rparr>,
              fsys\<lparr>opened := opened fsys @ [join path filename]\<rparr>)
         | None \<Rightarrow>
             (case write_failure fsys (join path filename) of
                Some (k, msg) \<Rightarrow>
                  if k < length rs then
                    (Returns \<lparr>content = ''Error creating file: '' @ msg,
                              structuredContent = None, isError = Some True\<rparr>,
                     p\<lparr>calls := calls p + 1\<rparr>,
                     fsys\<lparr>files := (files fsys)(join path filename \<mapsto>
                              \<lparr>csv_options = stringifier_options, csv_rows = take k rs\<rparr>),
                          opened := opened fsys @ [join path filename]\<rparr>)
                  else
                    (Returns \<lparr>content = ''Created '' @ dquote @ filename @ dquote
                                @ '' file with '' @ string_of_nat (length rs) @ '' rows'',
                              structuredContent =
                                Some \<lparr>fullPath = join path filename,
                                      fileRowCount = length rs\<rparr>,
                              isError = None\<rparr>,
                     p\<lparr>calls := calls p + 1\<rparr>,
                     fsys\<lparr>files := (files fsys)(join path filename \<mapsto>
                              \<lparr>csv_options = stringifier_options, csv_rows = rs\<rparr>),
                          opened := opened fsys @ [join path filename]\<rparr>)
              | None \<Rightarrow>
                  (Returns \<lparr>content = ''Created '' @ dquote @ filename @ dquote
                              @ '' file with '' @ string_of_nat (length rs) @ '' rows'',
                            structuredContent =
                              Some \<lparr>fullPath = join path filename, fileRowCount = length rs\<rparr>,
                            isError = None\<rparr>,
                   p\<lparr>calls := calls p + 1\<rparr>,
                   fsys\<lparr>files := (files fsys)(join path filename \<mapsto>
                            \<lparr>csv_options = stringifier_options, csv_rows = rs\<rparr>),
                        opened := opened fsys @ [join path filename]\<rparr>))))"
proof (intro conjI impI)
  assume "\<forall>i<length contents. \<not> rejects (take i contents) (contents ! i)"
  then show "createFromJsonToFSHandlerAsync join rejects fsys filename path contents =
        (case denied fsys (join path filename) of
           Some err \<Rightarrow>
             (Returns \<lparr>content = ''Error creating file: '' @ err, structuredContent = None,
                       isError = Some True\<rparr>,
              fsys\<lparr>opened := opened fsys @ [join path filename]\<rparr>)
         | None \<Rightarrow>
             (case write_failure fsys (join path filename) of
                Some (k, msg) \<Rightarrow>
                  if k < length contents then
                    (Returns \<lparr>content = ''Error creating file: '' @ msg,
                              structuredContent = None, isError = Some True\<rparr>,
                     fsys\<lparr>files := (files fsys)(join path filename \<mapsto>
                              \<lparr>csv_options = stringifier_options,
                               csv_rows = take k contents\<rparr>),
                          opened := opened fsys @ [join path filename]\<rparr>)
                  else
                    (Returns \<lparr>content = ''Created '' @ dquote @ filename @ dquote
                                @ '' file with '' @ string_of_nat (length contents) @ '' rows'',
                              structuredContent =
                                Some \<lparr>fullPath = join path filename,
                                      fileRowCount = length contents\<rparr>,
                              isError = None\<rparr>,
                     fsys\<lparr>files := (files fsys)(join path filename \<mapsto>
                              \<lparr>csv_options = stringifier_options, csv_rows = contents\<rparr>),
                          opened := opened fsys @ [join path filename]\<rparr>)
              | None \<Rightarrow>
                  (Returns \<lparr>content = ''Created '' @ dquote @ filename @ dquote
                              @ '' file with '' @ string_of_nat (length contents) @ '' rows'',
                            structuredContent =
                              Some \<lparr>fullPath = join path filename,
                                    fileRowCount = length contents\<rparr>,
                            isError = None\<rparr>,
                   fsys\<lparr>files := (files fsys)(join path filename \<mapsto>
                            \<lparr>csv_options = stringifier_options, csv_rows = contents\<rparr>),
                        opened := opened fsys @ [join path filename]\<rparr>)))"
    by (rule createFromJsonToFS_accepted)
next
  assume a: "respond p (calls p) q (map of_json vals) = Returns (Some rs) \<and> rs \<noteq> []
        \<and> (\<forall>i<length rs. \<not> rejects (take i rs) (rs ! i))"
  then have h1: "respond p (calls p) q (map of_json vals) = Returns (Some rs)"
    and h2: "rs \<noteq> []" and acc: "\<forall>i<length rs. \<not> rejects (take i rs) (rs ! i)"
    by simp_all
  show "saveQueryResultHandlerAsync join rejects p fsys q vals filename path =
        (case denied fsys (join path filename) of
           Some err \<Rightarrow>
             (Returns \<lparr>content = ''Error creating file: '' @ err, structuredContent = None,
                       isError = Some True\<rparr>,
              p\<lparr>calls := calls p + 1\<rparr>,
              fsys\<lparr>opened := opened fsys @ [join path filename]\<rparr>)
         | None \<Rightarrow>
             (case write_failure fsys (join path filename) of
                Some (k, msg) \<Rightarrow>
                  if k < length rs then
                    (Returns \<lparr>content = ''Error creating file: '' @ msg,
                              structuredContent = None, isError = Some True\<rparr>,
                     p\<lparr>calls := calls p + 1\<rparr>,
                     fsys\<lparr>files := (files fsys)(join path filename \<mapsto>
                              \<lparr>csv_options = stringifier_options, csv_rows = take k rs\<rparr>),
                          opened := opened fsys @ [join path filename]\<rparr>)
                  else
                    (Returns \<lparr>content = ''Created '' @ dquote @ filename @ dquote
                                @ '' file with '' @ string_of_nat (length rs) @ '' rows'',
                              structuredContent =
                                Some \<lparr>fullPath = join path filename,
                                      fileRowCount = length rs\<rparr>,
                              isError = None\<rparr>,
                     p\<lparr>calls := calls p + 1\<rparr>,
                     fsys\<lparr>files := (files fsys)(join path filename \<mapsto>
                              \<lparr>csv_options = stringifier_options, csv_rows = rs\<rparr>),
                          opened := opened fsys @ [join path filename]\<rparr>)
              | None \<Rightarrow>
                  (Returns \<lparr>content = ''Created '' @ dquote @ filename @ dquote
                              @ '' file with '' @ string_of_nat (length rs) @ '' rows'',
                            structuredContent =
                              Some \<lparr>fullPath = join path filename, fileRowCount = length rs\<rparr>,
                            isError = None\<rparr>,
                   p\<lparr>calls := calls p + 1\<rparr>,
                   fsys\<lparr>files := (files fsys)(join path filename \<mapsto>
                            \<lparr>csv_options = stringifier_options, csv_rows = rs\<rparr>),
                        opened := opened fsys @ [join path filename]\<rparr>)))"
    by (rule saveQueryResult_accepted [OF h1 h2 acc])
qed

theorem output_path_is_unchecked_witness:
  "respond (scripted_pool [Returns (Some [sample_row, other_row])])
       (calls (scripted_pool [Returns (Some [sample_row, other_row])])) ''SELECT 1''
       (map of_json [JsonNum 1])
     = Returns (Some [sample_row, other_row])
   \<and> [sample_row, other_row] \<noteq> []
   \<and> \<not> under_root ''/out'' ''/etc''
   \<and> createFromJsonToFSHandlerAsync sep_join never_rejects empty_disk ''passwd'' ''/etc''
        [sample_row, other_row]
       = (Returns
            \<lparr>content = ''Created '' @ dquote @ ''passwd'' @ dquote @ '' file with 2 rows'',
             structuredContent = Some \<lparr>fullPath = ''/etc/passwd'', fileRowCount = 2\<rparr>,
             isError = None\<rparr>,
          \<lparr>files = [''/etc/passwd'' \<mapsto>
               \<lparr>csv_options = stringifier_options, csv_rows = [sample_row, other_row]\<rparr>],
           denied = Map.empty, write_failure = Map.empty, opened = [''/etc/passwd'']\<rparr>)
   \<and> saveQueryResultHandlerAsync sep_join never_rejects
        (scripted_pool [Returns (Some [sample_row, other_row])]) empty_disk ''SELECT 1''
        [JsonNum 1] ''passwd'' ''/etc''
       = (Returns
            \<lparr>content = ''Created '' @ dquote @ ''passwd'' @ dquote @ '' file with 2 rows'',
             structuredContent = Some \<lparr>fullPath = ''/etc/passwd'', fileRowCount = 2\<rparr>,
             isError = None\<rparr>,
          (scripted_pool [Returns (Some [sample_row, other_row])])\<lparr>calls := 1\<rparr>,
          \<lparr>files = [''/etc/passwd'' \<mapsto>
               \<lparr>csv_options = stringifier_options, csv_rows = [sample_row, other_row]\<rparr>],
           denied = Map.empty, write_failure = Map.empty, opened = [''/etc/passwd'']\<rparr>)"
proof -
  let ?p = "scripted_pool [Returns (Some [sample_row, other_row])]"
  have h: "respond ?p (calls ?p) ''SELECT 1'' (map of_json [JsonNum 1])
      = Returns (Some [sample_row, other_row])"
    by (simp add: scripted_pool_def)
  have c: "calls ?p = 0" by (simp add: scripted_pool_def)
  have two: "string_of_nat (Suc (Suc 0)) = ''2''"
    by (simp add: string_of_nat.simps digit_def)
  have u: "\<not> under_root ''/out'' ''/etc''" by (simp add: under_root_def)
  show ?thesis
    using h u
      output_path_is_unchecked [where join = sep_join and rejects = never_rejects
        and fsys = "empty_disk :: json_row fs" and filename = "''passwd''" and path = "''/etc''"
        and contents = "[sample_row, other_row]" and p = ?p and q = "''SELECT 1''"
        and vals = "[JsonNum 1]" and rs = "[sample_row, other_row]"]
    by (simp add: never_rejects_def c two sep_join_def empty_disk_def)
qed

end
